theory Spec2Isabelle
  imports Main "HOL-Library.AList"
begin

section \<open>Dynamic Event Hub: the Event model, the socket handler and the client auth service\<close>

text \<open>
  JavaScript values are modelled as follows. A Mongo ObjectId is the string that
  \<open>toString()\<close> gives; a \<open>Date\<close> is its number of milliseconds since the epoch; the
  numbers the modelled functions read (ticket counts, attendee counts, JWT expiry
  seconds) are integers. \<open>Date.now()\<close> and \<open>new Date()\<close> are the argument \<open>now\<close> of the
  function that reads the clock.
\<close>

type_synonym object_id = string
type_synonym date = int

subsection \<open>backend/models/Event.js: the fields the modelled functions read\<close>

datatype event_status = Draft | Published | Cancelled | Postponed | Completed

datatype visibility = Public | Private | Unlisted

datatype attendee_status = Registered | Confirmed | Attended | CancelledA | NoShow

record ticket =
  quantity :: int
  sold :: int

text \<open>
  An attendee sub-document: \<open>a_id\<close> is its \<open>_id\<close>, \<open>user\<close> the ObjectId of the user it
  references (every attendee references a user, so \<open>attendee.user.toString()\<close> is
  defined).
\<close>

record attendee =
  a_id :: object_id
  user :: object_id
  a_status :: attendee_status
  checkInTime :: "date option"

text \<open>
  \<open>tickets\<close> is \<open>pricing.tickets\<close> (\<open>None\<close>: the array is absent), \<open>maxAttendees\<close> and
  \<open>currentAttendees\<close> are the fields of \<open>registration\<close> (\<open>None\<close>: unset), \<open>hasChat\<close> is
  \<open>features.hasChat\<close>.
\<close>

record event =
  e_id :: object_id
  organizer :: object_id
  startDate :: date
  endDate :: date
  duration :: int
  status :: event_status
  visibility :: visibility
  tickets :: "ticket list option"
  maxAttendees :: "int option"
  currentAttendees :: int
  attendees :: "attendee list"
  hasChat :: bool
  updatedAt :: date

text \<open>The virtual getter \<open>availableTickets\<close>: \<open>reduce\<close> from the left, starting at 0.\<close>

definition availableTickets :: "event \<Rightarrow> int" where
  "availableTickets e =
     (case tickets e of
        None \<Rightarrow> 0
      | Some ts \<Rightarrow> foldl (\<lambda>total t. total + (quantity t - sold t)) 0 ts)"

text \<open>
  \<open>getAvailableSpots\<close> returns a JavaScript number, which may be \<open>Infinity\<close>.
  \<open>!this.registration.maxAttendees\<close> holds when the field is unset or 0.
\<close>

datatype spots = Infinity | Finite int

definition getAvailableSpots :: "event \<Rightarrow> spots" where
  "getAvailableSpots e =
     (case maxAttendees e of
        None \<Rightarrow> Infinity
      | Some m \<Rightarrow> if m = 0 then Infinity else Finite (m - currentAttendees e))"

text \<open>
  The collection is the list of its documents. \<open>find\<close> keeps the documents that match,
  \<open>sort({startDate: 1})\<close> orders them by ascending \<open>startDate\<close>, and \<open>limit(n)\<close> is
  MongoDB's cursor limit: a positive \<open>n\<close> keeps the first \<open>n\<close> documents and \<open>limit(0)\<close>
  sets no limit. \<open>findUpcoming\<close> hands its argument to \<open>limit\<close> as it is; an omitted
  argument (\<open>None\<close>) takes the default 10. \<open>populate\<close> replaces the organizer reference
  by the referenced user and changes neither which events are returned nor their order.
\<close>

definition limit_q :: "nat \<Rightarrow> 'a list \<Rightarrow> 'a list" where
  "limit_q n xs = (if n = 0 then xs else take n xs)"

definition upcoming_filter :: "date \<Rightarrow> event \<Rightarrow> bool" where
  "upcoming_filter now e =
     (now \<le> startDate e \<and> status e = Published \<and> visibility e = Public)"

definition findUpcoming :: "date \<Rightarrow> event list \<Rightarrow> nat option \<Rightarrow> event list" where
  "findUpcoming now coll limit =
     limit_q (case limit of None \<Rightarrow> 10 | Some n \<Rightarrow> n)
       (sort_key startDate (filter (upcoming_filter now) coll))"

text \<open>
  \<open>Event.findById\<close> first casts the id it is given to an ObjectId. A string casts when it
  is 24 hexadecimal digits; for any other string the query is rejected with a
  \<open>CastError\<close>, which the caller's catch block receives. Otherwise the result is the
  document with that \<open>_id\<close>, or null.
\<close>

definition is_hex_digit :: "char \<Rightarrow> bool" where
  "is_hex_digit c \<longleftrightarrow> c \<in> set ''0123456789abcdefABCDEF''"

definition isObjectId :: "string \<Rightarrow> bool" where
  "isObjectId s \<longleftrightarrow> length s = 24 \<and> list_all is_hex_digit s"

datatype db_error = CastError

definition findById :: "event list \<Rightarrow> object_id \<Rightarrow> db_error + event option" where
  "findById coll eid =
     (if isObjectId eid then Inr (find (\<lambda>e. e_id e = eid) coll) else Inl CastError)"

text \<open>
  The pre-save hook, on a document whose title is not modified: the duration is
  computed when it is 0 (\<open>Math.round\<close> of the minutes between start and end, which
  rounds a half upwards), and \<open>updatedAt\<close> becomes the current time. \<open>save\<close> then
  replaces the stored document that \<open>findById\<close> finds under the same \<open>_id\<close>.
\<close>

definition pre_save :: "date \<Rightarrow> event \<Rightarrow> event" where
  "pre_save now e =
     (let e1 = (if duration e = 0
                then e\<lparr>duration := (endDate e - startDate e + 30000) div 60000\<rparr>
                else e)
      in e1\<lparr>updatedAt := now\<rparr>)"

fun update_first :: "('a \<Rightarrow> bool) \<Rightarrow> 'a \<Rightarrow> 'a list \<Rightarrow> 'a list" where
  "update_first P y [] = []"
| "update_first P y (x # xs) = (if P x then y # xs else x # update_first P y xs)"

definition save :: "date \<Rightarrow> event \<Rightarrow> event list \<Rightarrow> event list" where
  "save now e coll = update_first (\<lambda>d. e_id d = e_id e) (pre_save now e) coll"

text \<open>\<open>event.attendees.id(attendeeId)\<close>: the first sub-document with that \<open>_id\<close>, or null.\<close>

definition attendees_id :: "attendee list \<Rightarrow> object_id \<Rightarrow> attendee option" where
  "attendees_id as aid = find (\<lambda>a. a_id a = aid) as"

subsection \<open>backend/socket/socketHandler.js: values, sockets and the server state\<close>

text \<open>
  A payload is a JavaScript value. An object is the list of its properties in insertion
  order; \<open>AList.update\<close> is property assignment (an existing key keeps its place, a new
  one goes to the end), which is also what \<open>Map.prototype.set\<close> does.
\<close>

datatype jsval =
    JUndefined | JNull | JBool bool | JNum int | JInfinity | JStr string | JDate date
  | JObj "(string \<times> jsval) list"

record user_doc =
  u_id :: object_id
  fullName :: string
  avatar :: jsval
  u_status :: string

record jwt_payload =
  p_userId :: object_id
  p_exp :: "int option"

text \<open>
  \<open>socket.handshake\<close>: \<open>auth.token\<close> and \<open>headers.authorization\<close>, \<open>None\<close> when undefined.
\<close>

record handshake =
  auth_token :: "string option"
  authorization :: "string option"

record socket =
  sock_id :: string
  userId :: object_id
  s_user :: user_doc

record connection =
  c_userId :: object_id
  c_user :: user_doc
  connectedAt :: date

text \<open>
  What the handler does to the outside, in the order it does it: a database fetch, a
  database save, \<open>socket.join\<close>, \<open>socket.leave\<close>, and an emission. The target of an
  emission is the socket itself (\<open>socket.emit\<close>), a room without the sender
  (\<open>socket.to(room).emit\<close>), a whole room (\<open>io.to(room).emit\<close>) or every other socket
  (\<open>socket.broadcast.emit\<close>).
\<close>

datatype target =
    ToSocket string | ToRoomExcept string string | ToRoom string | ToAllExcept string

datatype effect =
    DbFindById object_id | DbSave object_id | Join string string | Leave string string
  | Emit target string jsval

text \<open>
  The three module-level maps, the events collection, and the effects performed so far.
  A JavaScript \<open>Map\<close> is the list of its entries in insertion order; a \<open>Set\<close> of socket ids
  is a set.
\<close>

record server =
  db :: "event list"
  activeConnections :: "(string \<times> connection) list"
  eventRooms :: "(object_id \<times> string set) list"
  userSockets :: "(object_id \<times> string set) list"
  effects :: "effect list"

definition perform :: "effect \<Rightarrow> server \<Rightarrow> server" where
  "perform x srv = srv\<lparr>effects := effects srv @ [x]\<rparr>"

definition emit :: "target \<Rightarrow> string \<Rightarrow> jsval \<Rightarrow> server \<Rightarrow> server" where
  "emit tgt name payload srv = perform (Emit tgt name payload) srv"

definition error_message :: "string \<Rightarrow> jsval" where
  "error_message m = JObj [(''message'', JStr m)]"

subsection \<open>The authentication middleware (\<open>io.use\<close>)\<close>

text \<open>\<open>String.prototype.replace\<close> with a string pattern: the first occurrence only.\<close>

fun replace_first :: "string \<Rightarrow> string \<Rightarrow> string \<Rightarrow> string" where
  "replace_first pat rep [] = (if pat = [] then rep else [])"
| "replace_first pat rep (c # cs) =
     (if take (length pat) (c # cs) = pat then rep @ drop (length pat) (c # cs)
      else c # replace_first pat rep cs)"

text \<open>\<open>a || b\<close> on values that are a string or undefined: the empty string is falsy.\<close>

definition js_or :: "string option \<Rightarrow> string option \<Rightarrow> string option" where
  "js_or a b = (case a of None \<Rightarrow> b | Some t \<Rightarrow> if t = [] then b else Some t)"

definition handshake_token :: "handshake \<Rightarrow> string option" where
  "handshake_token hs =
     js_or (auth_token hs) (map_option (replace_first ''Bearer '' []) (authorization hs))"

datatype auth_error = TokenRequired | InvalidOrInactiveUser | AuthenticationFailed

fun auth_error_message :: "auth_error \<Rightarrow> string" where
  "auth_error_message TokenRequired = ''Authentication token required''"
| "auth_error_message InvalidOrInactiveUser = ''Invalid or inactive user''"
| "auth_error_message AuthenticationFailed = ''Authentication failed''"

text \<open>
  \<open>jwt_verify\<close> is \<open>jwt.verify(token, JWT_SECRET)\<close>: the decoded payload, or \<open>None\<close> when
  it throws, which the catch block turns into \<open>Authentication failed\<close>. \<open>users\<close> is the
  users collection. On success the socket carries \<open>userId\<close> and \<open>user\<close>.
\<close>

definition auth_middleware ::
  "(string \<Rightarrow> jwt_payload option) \<Rightarrow> user_doc list \<Rightarrow> handshake \<Rightarrow> string
     \<Rightarrow> auth_error + socket" where
  "auth_middleware jwt_verify users hs sid =
     (case handshake_token hs of
        None \<Rightarrow> Inl TokenRequired
      | Some token \<Rightarrow>
          if token = [] then Inl TokenRequired
          else (case jwt_verify token of
                  None \<Rightarrow> Inl AuthenticationFailed
                | Some decoded \<Rightarrow>
                    (case find (\<lambda>u. u_id u = p_userId decoded) users of
                       None \<Rightarrow> Inl InvalidOrInactiveUser
                     | Some u \<Rightarrow>
                         if u_status u \<noteq> ''active'' then Inl InvalidOrInactiveUser
                         else Inr \<lparr>sock_id = sid, userId = u_id u, s_user = u\<rparr>)))"

subsection \<open>Connection and disconnection\<close>

definition broadcastUserStatus :: "date \<Rightarrow> socket \<Rightarrow> string \<Rightarrow> server \<Rightarrow> server" where
  "broadcastUserStatus now sock st srv =
     emit (ToAllExcept (sock_id sock)) ''user_status_change''
       (JObj [(''userId'', JStr (userId sock)),
              (''userName'', JStr (fullName (s_user sock))),
              (''status'', JStr st),
              (''timestamp'', JDate now)]) srv"

text \<open>
  \<open>if (!m.has(k)) m.set(k, new Set()); m.get(k).add(v)\<close>, used for \<open>userSockets\<close> and for
  \<open>eventRooms\<close>.
\<close>

definition ensure_set :: "'k \<Rightarrow> ('k \<times> 'v set) list \<Rightarrow> ('k \<times> 'v set) list" where
  "ensure_set k m = (if map_of m k = None then AList.update k {} m else m)"

definition add_to_set :: "'k \<Rightarrow> 'v \<Rightarrow> ('k \<times> 'v set) list \<Rightarrow> ('k \<times> 'v set) list" where
  "add_to_set k v m =
     (case map_of m k of None \<Rightarrow> m | Some S \<Rightarrow> AList.update k (insert v S) m)"

definition on_connection :: "date \<Rightarrow> socket \<Rightarrow> server \<Rightarrow> server" where
  "on_connection now sock srv =
     (let s1 = srv\<lparr>activeConnections :=
                 AList.update (sock_id sock)
                   \<lparr>c_userId = userId sock, c_user = s_user sock, connectedAt = now\<rparr>
                   (activeConnections srv)\<rparr>;
          s2 = s1\<lparr>userSockets := ensure_set (userId sock) (userSockets s1)\<rparr>;
          s3 = s2\<lparr>userSockets := add_to_set (userId sock) (sock_id sock) (userSockets s2)\<rparr>;
          s4 = perform (Join (sock_id sock) (''user_'' @ userId sock)) s3;
          s5 = emit (ToSocket (sock_id sock)) ''connected''
                 (JObj [(''message'', JStr ''Connected to Dynamic Event Hub''),
                        (''user'', JObj [(''id'', JStr (u_id (s_user sock))),
                                         (''name'', JStr (fullName (s_user sock))),
                                         (''avatar'', avatar (s_user sock))]),
                        (''timestamp'', JDate now)]) s4
      in broadcastUserStatus now sock ''online'' s5)"

text \<open>A connection attempt: the middleware, then the connection handler.\<close>

definition handle_connect ::
  "(string \<Rightarrow> jwt_payload option) \<Rightarrow> user_doc list \<Rightarrow> date \<Rightarrow> handshake \<Rightarrow> string
     \<Rightarrow> server \<Rightarrow> auth_error + server" where
  "handle_connect jwt_verify users now hs sid srv =
     (case auth_middleware jwt_verify users hs sid of
        Inl e \<Rightarrow> Inl e
      | Inr sock \<Rightarrow> Inr (on_connection now sock srv))"

definition user_left_event :: "date \<Rightarrow> socket \<Rightarrow> jsval" where
  "user_left_event now sock =
     JObj [(''userId'', JStr (userId sock)),
           (''userName'', JStr (fullName (s_user sock))),
           (''timestamp'', JDate now)]"

text \<open>
  \<open>eventRooms.forEach\<close> of the disconnect handler: the entries in order, each set that
  holds the socket id loses it, and the room is told; the entry itself stays.
\<close>

fun leave_all_rooms ::
  "date \<Rightarrow> socket \<Rightarrow> (object_id \<times> string set) list
     \<Rightarrow> (object_id \<times> string set) list \<times> effect list" where
  "leave_all_rooms now sock [] = ([], [])"
| "leave_all_rooms now sock ((eventId, socketSet) # rest) =
     (let (rest', effs) = leave_all_rooms now sock rest
      in if sock_id sock \<in> socketSet
         then ((eventId, socketSet - {sock_id sock}) # rest',
               Emit (ToRoomExcept (''event_'' @ eventId) (sock_id sock)) ''user_left_event''
                 (user_left_event now sock) # effs)
         else ((eventId, socketSet) # rest', effs))"

definition on_disconnect :: "date \<Rightarrow> socket \<Rightarrow> server \<Rightarrow> server" where
  "on_disconnect now sock srv =
     (let s1 = srv\<lparr>activeConnections := AList.delete (sock_id sock) (activeConnections srv)\<rparr>;
          s2 = (case map_of (userSockets s1) (userId sock) of
                  None \<Rightarrow> s1
                | Some userSocketSet \<Rightarrow>
                    (let S' = userSocketSet - {sock_id sock};
                         s' = s1\<lparr>userSockets := AList.update (userId sock) S' (userSockets s1)\<rparr>
                     in if S' = {}
                        then broadcastUserStatus now sock ''offline''
                               (s'\<lparr>userSockets := AList.delete (userId sock) (userSockets s')\<rparr>)
                        else s'));
          (rooms', effs) = leave_all_rooms now sock (eventRooms s2)
      in s2\<lparr>eventRooms := rooms', effects := effects s2 @ effs\<rparr>)"

subsection \<open>The handlers of the named socket events\<close>

text \<open>
  Each handler runs from its first statement to its last on the state it finds;
  \<open>Event.findById\<close> reads the collection at that moment. When \<open>findById\<close> rejects, the
  catch block of the handler emits the handler's own \<open>error\<close> message to the sender and
  nothing else happens. \<open>event.save()\<close> on a document that was just fetched is taken to
  succeed.
\<close>

definition hasAccess :: "event \<Rightarrow> socket \<Rightarrow> bool" where
  "hasAccess ev sock =
     (visibility ev = Public \<or> organizer ev = userId sock \<or>
      list_ex (\<lambda>attendee. user attendee = userId sock) (attendees ev))"

definition join_event :: "date \<Rightarrow> socket \<Rightarrow> object_id \<Rightarrow> server \<Rightarrow> server" where
  "join_event now sock eventId srv =
     (let s0 = perform (DbFindById eventId) srv
      in case findById (db s0) eventId of
           Inl err \<Rightarrow>
             emit (ToSocket (sock_id sock)) ''error'' (error_message ''Failed to join event'') s0
         | Inr None \<Rightarrow>
             emit (ToSocket (sock_id sock)) ''error'' (error_message ''Event not found'') s0
         | Inr (Some ev) \<Rightarrow>
             if \<not> hasAccess ev sock
             then emit (ToSocket (sock_id sock)) ''error''
                    (error_message ''Access denied to this event'') s0
             else
               (let s1 = perform (Join (sock_id sock) (''event_'' @ eventId)) s0;
                    s2 = s1\<lparr>eventRooms := ensure_set eventId (eventRooms s1)\<rparr>;
                    s3 = s2\<lparr>eventRooms := add_to_set eventId (sock_id sock) (eventRooms s2)\<rparr>;
                    s4 = emit (ToRoomExcept (''event_'' @ eventId) (sock_id sock))
                           ''user_joined_event''
                           (JObj [(''userId'', JStr (userId sock)),
                                  (''userName'', JStr (fullName (s_user sock))),
                                  (''userAvatar'', avatar (s_user sock)),
                                  (''timestamp'', JDate now)]) s3
                in emit (ToSocket (sock_id sock)) ''joined_event''
                     (JObj [(''eventId'', JStr eventId),
                            (''message'', JStr ''Successfully joined event room'')]) s4))"

definition leave_event :: "date \<Rightarrow> socket \<Rightarrow> object_id \<Rightarrow> server \<Rightarrow> server" where
  "leave_event now sock eventId srv =
     (let s1 = perform (Leave (sock_id sock) (''event_'' @ eventId)) srv;
          s2 = (case map_of (eventRooms s1) eventId of
                  None \<Rightarrow> s1
                | Some eventSocketSet \<Rightarrow>
                    (let S' = eventSocketSet - {sock_id sock};
                         s' = s1\<lparr>eventRooms := AList.update eventId S' (eventRooms s1)\<rparr>
                     in if S' = {}
                        then s'\<lparr>eventRooms := AList.delete eventId (eventRooms s')\<rparr>
                        else s'))
      in emit (ToRoomExcept (''event_'' @ eventId) (sock_id sock)) ''user_left_event''
           (user_left_event now sock) s2)"

definition event_update ::
  "date \<Rightarrow> socket \<Rightarrow> object_id \<Rightarrow> jsval \<Rightarrow> jsval \<Rightarrow> server \<Rightarrow> server" where
  "event_update now sock eventId updateType updateData srv =
     (let s0 = perform (DbFindById eventId) srv
      in case findById (db s0) eventId of
           Inl err \<Rightarrow>
             emit (ToSocket (sock_id sock)) ''error''
               (error_message ''Failed to update event'') s0
         | Inr event \<Rightarrow>
             if (case event of None \<Rightarrow> True | Some ev \<Rightarrow> organizer ev \<noteq> userId sock)
             then emit (ToSocket (sock_id sock)) ''error''
                    (error_message ''Unauthorized to update this event'') s0
             else emit (ToRoom (''event_'' @ eventId)) ''event_updated''
                    (JObj [(''eventId'', JStr eventId),
                           (''updateType'', updateType),
                           (''updateData'', updateData),
                           (''updatedBy'', JObj [(''id'', JStr (userId sock)),
                                                 (''name'', JStr (fullName (s_user sock)))]),
                           (''timestamp'', JDate now)]) s0)"

text \<open>\<open>Date.now().toString()\<close>: the decimal digits of the number.\<close>

fun digits :: "nat \<Rightarrow> string" where
  "digits n =
     (if n < 10 then [char_of (48 + n)]
      else digits (n div 10) @ [char_of (48 + n mod 10)])"

definition number_toString :: "int \<Rightarrow> string" where
  "number_toString i = (if i < 0 then CHR ''-'' # digits (nat (- i)) else digits (nat i))"

text \<open>\<open>messageType\<close> is \<open>None\<close> when the payload has none: the default is \<open>'text'\<close>.\<close>

definition send_event_message ::
  "date \<Rightarrow> socket \<Rightarrow> object_id \<Rightarrow> jsval \<Rightarrow> jsval option \<Rightarrow> server \<Rightarrow> server" where
  "send_event_message now sock eventId message messageType srv =
     (let s0 = perform (DbFindById eventId) srv
      in case findById (db s0) eventId of
           Inl err \<Rightarrow>
             emit (ToSocket (sock_id sock)) ''error''
               (error_message ''Failed to send message'') s0
         | Inr event \<Rightarrow>
             if (case event of None \<Rightarrow> True | Some ev \<Rightarrow> \<not> hasChat ev)
             then emit (ToSocket (sock_id sock)) ''error''
                    (error_message ''Chat not available for this event'') s0
             else emit (ToRoom (''event_'' @ eventId)) ''new_event_message''
                    (JObj [(''id'', JStr (number_toString now)),
                           (''eventId'', JStr eventId),
                           (''userId'', JStr (userId sock)),
                           (''userName'', JStr (fullName (s_user sock))),
                           (''userAvatar'', avatar (s_user sock)),
                           (''message'', message),
                           (''messageType'',
                              (case messageType of None \<Rightarrow> JStr ''text'' | Some t \<Rightarrow> t)),
                           (''timestamp'', JDate now)]) s0)"

definition typing_start :: "socket \<Rightarrow> object_id \<Rightarrow> server \<Rightarrow> server" where
  "typing_start sock eventId srv =
     emit (ToRoomExcept (''event_'' @ eventId) (sock_id sock)) ''user_typing''
       (JObj [(''userId'', JStr (userId sock)),
              (''userName'', JStr (fullName (s_user sock))),
              (''eventId'', JStr eventId)]) srv"

definition typing_stop :: "socket \<Rightarrow> object_id \<Rightarrow> server \<Rightarrow> server" where
  "typing_stop sock eventId srv =
     emit (ToRoomExcept (''event_'' @ eventId) (sock_id sock)) ''user_stopped_typing''
       (JObj [(''userId'', JStr (userId sock)),
              (''eventId'', JStr eventId)]) srv"

text \<open>
  \<open>notification\<close> is the object the client sent, as its property list; the spread copies
  it, then \<open>from\<close> and \<open>timestamp\<close> are assigned.
\<close>

definition send_notification ::
  "date \<Rightarrow> socket \<Rightarrow> string \<Rightarrow> (string \<times> jsval) list \<Rightarrow> server \<Rightarrow> server" where
  "send_notification now sock targetUserId notification srv =
     emit (ToRoom (''user_'' @ targetUserId)) ''notification''
       (JObj (AList.update ''timestamp'' (JDate now)
                (AList.update ''from''
                   (JObj [(''id'', JStr (userId sock)),
                          (''name'', JStr (fullName (s_user sock))),
                          (''avatar'', avatar (s_user sock))])
                   notification))) srv"

definition mark_notification_read :: "jsval \<Rightarrow> server \<Rightarrow> server" where
  "mark_notification_read notificationId srv = srv"

definition spots_value :: "spots \<Rightarrow> jsval" where
  "spots_value sp = (case sp of Infinity \<Rightarrow> JInfinity | Finite n \<Rightarrow> JNum n)"

definition checked_in_count :: "attendee list \<Rightarrow> int" where
  "checked_in_count as = int (length (filter (\<lambda>a. checkInTime a \<noteq> None) as))"

definition request_event_stats :: "date \<Rightarrow> socket \<Rightarrow> object_id \<Rightarrow> server \<Rightarrow> server" where
  "request_event_stats now sock eventId srv =
     (let s0 = perform (DbFindById eventId) srv
      in case findById (db s0) eventId of
           Inl err \<Rightarrow>
             emit (ToSocket (sock_id sock)) ''error''
               (error_message ''Failed to get event stats'') s0
         | Inr None \<Rightarrow>
             emit (ToSocket (sock_id sock)) ''error'' (error_message ''Event not found'') s0
         | Inr (Some ev) \<Rightarrow>
             emit (ToSocket (sock_id sock)) ''event_stats''
               (JObj [(''eventId'', JStr eventId),
                      (''totalAttendees'', JNum (int (length (attendees ev)))),
                      (''checkedInCount'', JNum (checked_in_count (attendees ev))),
                      (''availableSpots'', spots_value (getAvailableSpots ev)),
                      (''onlineViewers'',
                         JNum (case map_of (eventRooms s0) eventId of
                                 None \<Rightarrow> 0
                               | Some S \<Rightarrow> int (card S))),
                      (''timestamp'', JDate now)]) s0)"

definition attendee_checkin ::
  "date \<Rightarrow> socket \<Rightarrow> object_id \<Rightarrow> object_id \<Rightarrow> server \<Rightarrow> server" where
  "attendee_checkin now sock eventId attendeeId srv =
     (let s0 = perform (DbFindById eventId) srv
      in case findById (db s0) eventId of
           Inl err \<Rightarrow>
             emit (ToSocket (sock_id sock)) ''error'' (error_message ''Check-in failed'') s0
         | Inr None \<Rightarrow>
             emit (ToSocket (sock_id sock)) ''error'' (error_message ''Unauthorized'') s0
         | Inr (Some ev) \<Rightarrow>
             if organizer ev \<noteq> userId sock
             then emit (ToSocket (sock_id sock)) ''error'' (error_message ''Unauthorized'') s0
             else
               (case attendees_id (attendees ev) attendeeId of
                  None \<Rightarrow> s0
                | Some attendee \<Rightarrow>
                    (let attendee' = attendee\<lparr>checkInTime := Some now, a_status := Attended\<rparr>;
                         ev' = ev\<lparr>attendees :=
                                 update_first (\<lambda>a. a_id a = attendeeId) attendee' (attendees ev)\<rparr>;
                         s1 = perform (DbSave eventId) (s0\<lparr>db := save now ev' (db s0)\<rparr>)
                     in emit (ToRoom (''event_'' @ eventId)) ''attendee_checked_in''
                          (JObj [(''eventId'', JStr eventId),
                                 (''attendeeId'', JStr attendeeId),
                                 (''checkInTime'', JDate now),
                                 (''totalCheckedIn'', JNum (checked_in_count (attendees ev')))])
                          s1)))"

text \<open>The table of \<open>socket.on\<close> registrations: one constructor per named event.\<close>

datatype client_event =
    JoinEvent object_id
  | LeaveEvent object_id
  | EventUpdate object_id jsval jsval
  | SendEventMessage object_id jsval "jsval option"
  | TypingStart object_id
  | TypingStop object_id
  | SendNotification string "(string \<times> jsval) list"
  | MarkNotificationRead jsval
  | RequestEventStats object_id
  | AttendeeCheckin object_id object_id

fun dispatch :: "date \<Rightarrow> socket \<Rightarrow> client_event \<Rightarrow> server \<Rightarrow> server" where
  "dispatch now sock (JoinEvent eventId) srv = join_event now sock eventId srv"
| "dispatch now sock (LeaveEvent eventId) srv = leave_event now sock eventId srv"
| "dispatch now sock (EventUpdate eventId ut ud) srv = event_update now sock eventId ut ud srv"
| "dispatch now sock (SendEventMessage eventId m mt) srv =
     send_event_message now sock eventId m mt srv"
| "dispatch now sock (TypingStart eventId) srv = typing_start sock eventId srv"
| "dispatch now sock (TypingStop eventId) srv = typing_stop sock eventId srv"
| "dispatch now sock (SendNotification targetUserId n) srv =
     send_notification now sock targetUserId n srv"
| "dispatch now sock (MarkNotificationRead nid) srv = mark_notification_read nid srv"
| "dispatch now sock (RequestEventStats eventId) srv = request_event_stats now sock eventId srv"
| "dispatch now sock (AttendeeCheckin eventId attendeeId) srv =
     attendee_checkin now sock eventId attendeeId srv"

text \<open>
  The states the server can be in: it starts with empty maps; Socket.io gives a new
  connection an id that no connected socket has; a named event may arrive from any
  socket; a connected socket disconnects; and the REST API may change the collection
  in between.
\<close>

definition connected :: "server \<Rightarrow> socket \<Rightarrow> bool" where
  "connected srv sock =
     (case map_of (activeConnections srv) (sock_id sock) of
        None \<Rightarrow> False
      | Some c \<Rightarrow> c_userId c = userId sock)"

inductive reachable :: "server \<Rightarrow> bool" where
  start:
    "reachable \<lparr>db = d, activeConnections = [], eventRooms = [], userSockets = [],
                 effects = []\<rparr>"
| connect:
    "reachable srv \<Longrightarrow> map_of (activeConnections srv) (sock_id sock) = None
       \<Longrightarrow> reachable (on_connection now sock srv)"
| event:
    "reachable srv \<Longrightarrow> reachable (dispatch now sock ev srv)"
| disconnect:
    "reachable srv \<Longrightarrow> connected srv sock \<Longrightarrow> reachable (on_disconnect now sock srv)"
| rest_api:
    "reachable srv \<Longrightarrow> reachable (srv\<lparr>db := d\<rparr>)"

subsection \<open>The client authentication service (\<open>AuthService\<close>)\<close>

text \<open>
  The service's fields and what it acts on: the cookie jar and the local storage, the
  two \<open>BehaviorSubject\<close> values, the subscription held in \<open>tokenRefreshTimer\<close> (\<open>None\<close>:
  undefined or null), the timers that are pending (handle and due time), the next
  subscription handle, and the calls of \<open>router.navigate\<close> so far. \<open>production\<close> is
  \<open>environment.production\<close>.
\<close>

record auth_service =
  production :: bool
  cookies :: "(string \<times> string) list"
  localStorage :: "(string \<times> string) list"
  currentUser :: "jsval option"
  isAuthenticated :: bool
  tokenRefreshTimer :: "nat option"
  timers :: "(nat \<times> int) list"
  next_handle :: nat
  navigations :: "string list list"

definition TOKEN_KEY :: string where
  "TOKEN_KEY = ''auth_token''"

definition REFRESH_THRESHOLD :: int where
  "REFRESH_THRESHOLD = 5 * 60 * 1000"

definition storeToken :: "string \<Rightarrow> auth_service \<Rightarrow> auth_service" where
  "storeToken token s =
     (if production s then s\<lparr>cookies := AList.update TOKEN_KEY token (cookies s)\<rparr>
      else s\<lparr>localStorage := AList.update TOKEN_KEY token (localStorage s)\<rparr>)"

text \<open>\<open>cookieService.get\<close> gives the empty string for a missing cookie.\<close>

definition getStoredToken :: "auth_service \<Rightarrow> string option" where
  "getStoredToken s =
     (if production s
      then (case map_of (cookies s) TOKEN_KEY of
              None \<Rightarrow> None
            | Some v \<Rightarrow> if v = [] then None else Some v)
      else map_of (localStorage s) TOKEN_KEY)"

definition removeStoredToken :: "auth_service \<Rightarrow> auth_service" where
  "removeStoredToken s =
     (if production s then s\<lparr>cookies := AList.delete TOKEN_KEY (cookies s)\<rparr>
      else s\<lparr>localStorage := AList.delete TOKEN_KEY (localStorage s)\<rparr>)"

definition setAuthState :: "string \<Rightarrow> auth_service \<Rightarrow> auth_service" where
  "setAuthState token s = s\<lparr>isAuthenticated := True\<rparr>"

definition clearAuthState :: "auth_service \<Rightarrow> auth_service" where
  "clearAuthState s = (removeStoredToken s)\<lparr>currentUser := None, isAuthenticated := False\<rparr>"

text \<open>\<open>unsubscribe\<close> cancels the pending timer of that subscription, if there is one.\<close>

definition clearTokenRefreshTimer :: "auth_service \<Rightarrow> auth_service" where
  "clearTokenRefreshTimer s =
     (case tokenRefreshTimer s of
        None \<Rightarrow> s
      | Some h \<Rightarrow> s\<lparr>timers := filter (\<lambda>t. fst t \<noteq> h) (timers s), tokenRefreshTimer := None\<rparr>)"

text \<open>
  \<open>timer(delay)\<close> sets a timer of the JavaScript runtime, which keeps the delay as a
  signed 32-bit integer: a delay from 1 to \<open>TIMEOUT_MAX\<close> (2147483647 ms, about 24.8
  days) comes due that many milliseconds after the current time, any other delay after
  1 millisecond.
\<close>

definition TIMEOUT_MAX :: int where
  "TIMEOUT_MAX = 2147483647"

definition timer_due :: "date \<Rightarrow> int \<Rightarrow> date" where
  "timer_due now delay = now + (if 1 \<le> delay \<and> delay \<le> TIMEOUT_MAX then delay else 1)"

text \<open>
  \<open>jwtDecode\<close> is the library function: the payload, or \<open>None\<close> when it throws. A payload
  without \<open>exp\<close> makes the delay \<open>NaN\<close>, and \<open>NaN > 0\<close> is false.
\<close>

definition scheduleTokenRefresh ::
  "(string \<Rightarrow> jwt_payload option) \<Rightarrow> date \<Rightarrow> string \<Rightarrow> auth_service \<Rightarrow> auth_service" where
  "scheduleTokenRefresh jwtDecode now token s =
     (case jwtDecode token of
        None \<Rightarrow> s
      | Some decoded \<Rightarrow>
          (case p_exp decoded of
             None \<Rightarrow> s
           | Some e \<Rightarrow>
               (let expiryTime = e * 1000;
                    refreshTime = expiryTime - REFRESH_THRESHOLD;
                    delay = refreshTime - now
                in if delay > 0
                   then (let s1 = clearTokenRefreshTimer s
                         in s1\<lparr>tokenRefreshTimer := Some (next_handle s1),
                               timers := timers s1 @ [(next_handle s1, timer_due now delay)],
                               next_handle := Suc (next_handle s1)\<rparr>)
                   else s)))"

definition handleAuthSuccess ::
  "(string \<Rightarrow> jwt_payload option) \<Rightarrow> date \<Rightarrow> string \<Rightarrow> jsval \<Rightarrow> auth_service
     \<Rightarrow> auth_service" where
  "handleAuthSuccess jwtDecode now token usr s =
     (let s1 = storeToken token s;
          s2 = setAuthState token s1;
          s3 = s2\<lparr>currentUser := Some usr\<rparr>
      in scheduleTokenRefresh jwtDecode now token s3)"

definition handleLogout :: "auth_service \<Rightarrow> auth_service" where
  "handleLogout s =
     (let s1 = clearAuthState s;
          s2 = clearTokenRefreshTimer s1
      in s2\<lparr>navigations := navigations s2 @ [[''/login'']]\<rparr>)"

text \<open>
  An \<open>HttpErrorResponse\<close>: a client-side one carries an \<open>ErrorEvent\<close> with its message, a
  server-side one the status and \<open>error.error?.message\<close>.
\<close>

datatype http_error = ClientError string | ServerError int "string option"

definition handleError :: "http_error \<Rightarrow> auth_service \<Rightarrow> auth_service \<times> string" where
  "handleError err s =
     (case err of
        ClientError m \<Rightarrow> (s, m)
      | ServerError st msg \<Rightarrow>
          if st = 401 then (handleLogout s, ''Authentication failed'')
          else (case msg of
                  None \<Rightarrow> (s, ''Server error: '' @ number_toString st)
                | Some m \<Rightarrow>
                    if m = [] then (s, ''Server error: '' @ number_toString st) else (s, m)))"

text \<open>
  What happens to the service: a login, registration or password reset succeeds; the
  refresh request succeeds with a new token or fails; \<open>logout\<close> is called; a request
  fails and \<open>handleError\<close> runs; the profile request of \<open>loadUserProfile\<close> succeeds, or
  fails (\<open>handleError\<close>, then the subscriber's \<open>clearAuthState\<close>); the pending timer of
  a subscription comes due (it is no longer pending; the subscription stays in the
  field).
\<close>

datatype auth_op =
    AuthSuccess string jsval
  | RefreshSuccess string
  | RefreshFailure
  | Logout
  | HttpError http_error
  | ProfileLoaded jsval
  | ProfileLoadFailed http_error
  | TimerFires nat

fun auth_step ::
  "(string \<Rightarrow> jwt_payload option) \<Rightarrow> date \<Rightarrow> auth_op \<Rightarrow> auth_service \<Rightarrow> auth_service" where
  "auth_step jwtDecode now (AuthSuccess token usr) s = handleAuthSuccess jwtDecode now token usr s"
| "auth_step jwtDecode now (RefreshSuccess token) s =
     scheduleTokenRefresh jwtDecode now token (storeToken token s)"
| "auth_step jwtDecode now RefreshFailure s = handleLogout s"
| "auth_step jwtDecode now Logout s = handleLogout s"
| "auth_step jwtDecode now (HttpError err) s = fst (handleError err s)"
| "auth_step jwtDecode now (ProfileLoaded usr) s = s\<lparr>currentUser := Some usr\<rparr>"
| "auth_step jwtDecode now (ProfileLoadFailed err) s = clearAuthState (fst (handleError err s))"
| "auth_step jwtDecode now (TimerFires h) s = s\<lparr>timers := filter (\<lambda>t. fst t \<noteq> h) (timers s)\<rparr>"

text \<open>
  The service as constructed, before \<open>initializeAuth\<close>, and \<open>initializeAuth\<close> itself
  (\<open>loadUserProfile\<close> is a request whose outcome arrives later).
\<close>

definition new_service ::
  "bool \<Rightarrow> (string \<times> string) list \<Rightarrow> (string \<times> string) list \<Rightarrow> auth_service" where
  "new_service is_prod cs ls =
     \<lparr>production = is_prod, cookies = cs, localStorage = ls, currentUser = None,
      isAuthenticated = False, tokenRefreshTimer = None, timers = [], next_handle = 0,
      navigations = []\<rparr>"

definition isTokenValid :: "(string \<Rightarrow> jwt_payload option) \<Rightarrow> date \<Rightarrow> string \<Rightarrow> bool" where
  "isTokenValid jwtDecode now token =
     (case jwtDecode token of
        None \<Rightarrow> False
      | Some decoded \<Rightarrow> (case p_exp decoded of None \<Rightarrow> False | Some e \<Rightarrow> now < e * 1000))"

definition initializeAuth ::
  "(string \<Rightarrow> jwt_payload option) \<Rightarrow> date \<Rightarrow> auth_service \<Rightarrow> auth_service" where
  "initializeAuth jwtDecode now s =
     (case getStoredToken s of
        None \<Rightarrow> clearAuthState s
      | Some token \<Rightarrow>
          if token \<noteq> [] \<and> isTokenValid jwtDecode now token
          then scheduleTokenRefresh jwtDecode now token (setAuthState token s)
          else clearAuthState s)"


subsection \<open>Invariants and concrete inputs\<close>


text \<open>
  The registry invariant of the server: \<open>userSockets\<close> has one entry per user, no entry
  holds an empty set, every socket id in the set of a user is an active connection of
  that user, and every active connection is in the set of its user.
\<close>

definition registry_inv :: "server \<Rightarrow> bool" where
  "registry_inv srv \<longleftrightarrow>
     distinct (map fst (userSockets srv)) \<and>
     (\<forall>u S. map_of (userSockets srv) u = Some S \<longrightarrow>
        S \<noteq> {} \<and>
        (\<forall>sid \<in> S. \<exists>c. map_of (activeConnections srv) sid = Some c \<and> c_userId c = u)) \<and>
     (\<forall>sid c. map_of (activeConnections srv) sid = Some c \<longrightarrow>
        (\<exists>S. map_of (userSockets srv) (c_userId c) = Some S \<and> sid \<in> S))"

text \<open>
  The effects of one handler run: what \<open>srv'\<close> has performed beyond \<open>srv\<close>; \<open>run\<close> is the
  effects of dispatching one named event.
\<close>

definition new_effects :: "server \<Rightarrow> server \<Rightarrow> effect list" where
  "new_effects srv srv' = drop (length (effects srv)) (effects srv')"

definition run :: "date \<Rightarrow> socket \<Rightarrow> client_event \<Rightarrow> server \<Rightarrow> effect list" where
  "run now sock ev srv = new_effects srv (dispatch now sock ev srv)"

text \<open>
  An effect mutates or broadcasts when it is a database save, a \<open>socket.join\<close>, a
  \<open>socket.leave\<close>, or an emission to anything but the sender's own socket. A handler run
  has mutated the state when the collection or one of the three maps differs afterwards.
  A list of effects has its fetch first when no effect that mutates or broadcasts comes
  before the first database fetch.
\<close>

fun mutates_or_broadcasts :: "effect \<Rightarrow> bool" where
  "mutates_or_broadcasts (Emit (ToSocket s) n p) = False"
| "mutates_or_broadcasts (Emit tgt n p) = True"
| "mutates_or_broadcasts (DbSave eid) = True"
| "mutates_or_broadcasts (Join s r) = True"
| "mutates_or_broadcasts (Leave s r) = True"
| "mutates_or_broadcasts (DbFindById eid) = False"

definition mutated :: "server \<Rightarrow> server \<Rightarrow> bool" where
  "mutated srv srv' \<longleftrightarrow>
     db srv' \<noteq> db srv \<or> eventRooms srv' \<noteq> eventRooms srv \<or>
     userSockets srv' \<noteq> userSockets srv \<or> activeConnections srv' \<noteq> activeConnections srv"

fun is_fetch :: "effect \<Rightarrow> bool" where
  "is_fetch (DbFindById eid) = True"
| "is_fetch x = False"

fun fetch_comes_first :: "effect list \<Rightarrow> bool" where
  "fetch_comes_first [] = True"
| "fetch_comes_first (x # xs) =
     (is_fetch x \<or> (\<not> mutates_or_broadcasts x \<and> fetch_comes_first xs))"

text \<open>The \<open>user_status_change\<close> broadcast of \<open>broadcastUserStatus(socket, 'offline')\<close>.\<close>

definition offline_status :: "date \<Rightarrow> socket \<Rightarrow> effect" where
  "offline_status now sock =
     Emit (ToAllExcept (sock_id sock)) ''user_status_change''
       (JObj [(''userId'', JStr (userId sock)),
              (''userName'', JStr (fullName (s_user sock))),
              (''status'', JStr ''offline''),
              (''timestamp'', JDate now)])"

text \<open>Concrete documents, sockets and services on which the theorems are exercised.\<close>

definition oid_e1 :: object_id where
  "oid_e1 = ''0000000000000000000000e1''"

definition oid_e2 :: object_id where
  "oid_e2 = ''0000000000000000000000e2''"

definition oid_e3 :: object_id where
  "oid_e3 = ''0000000000000000000000e3''"

definition ev0 :: event where
  "ev0 = \<lparr>e_id = oid_e1, organizer = ''u1'', startDate = 5000, endDate = 9000, duration = 60,
          status = Published, visibility = Public,
          tickets = Some [\<lparr>quantity = 10, sold = 3\<rparr>, \<lparr>quantity = 5, sold = 5\<rparr>],
          maxAttendees = Some 5, currentAttendees = 7,
          attendees = [\<lparr>a_id = ''a1'', user = ''u2'', a_status = Registered,
                        checkInTime = None\<rparr>],
          hasChat = False, updatedAt = 0\<rparr>"

definition ev1 :: event where
  "ev1 = ev0\<lparr>e_id := oid_e2, startDate := 7000, visibility := Private\<rparr>"

definition ev2 :: event where
  "ev2 = ev0\<lparr>e_id := oid_e3, startDate := 3000\<rparr>"

definition user0 :: user_doc where
  "user0 = \<lparr>u_id = ''u1'', fullName = ''Ann'', avatar = JNull, u_status = ''active''\<rparr>"

definition user1 :: user_doc where
  "user1 = \<lparr>u_id = ''u2'', fullName = ''Bob'', avatar = JNull, u_status = ''active''\<rparr>"

definition sock0 :: socket where
  "sock0 = \<lparr>sock_id = ''s1'', userId = ''u1'', s_user = user0\<rparr>"

definition sock1 :: socket where
  "sock1 = \<lparr>sock_id = ''s2'', userId = ''u2'', s_user = user1\<rparr>"

definition sock2 :: socket where
  "sock2 = \<lparr>sock_id = ''s3'', userId = ''u3'',
            s_user = \<lparr>u_id = ''u3'', fullName = ''Cy'', avatar = JNull, u_status = ''active''\<rparr>\<rparr>"

definition srv0 :: server where
  "srv0 = \<lparr>db = [ev0, ev1], activeConnections = [], eventRooms = [], userSockets = [],
           effects = []\<rparr>"

definition srv1 :: server where
  "srv1 = dispatch 2 sock0 (JoinEvent oid_e1) (on_connection 1 sock0 srv0)"

definition decode0 :: "string \<Rightarrow> jwt_payload option" where
  "decode0 t =
     (if t = ''tok'' then Some \<lparr>p_userId = ''u1'', p_exp = Some 2000\<rparr>
      else if t = ''tok2'' then Some \<lparr>p_userId = ''u1'', p_exp = Some 3000\<rparr>
      else if t = ''tok3'' then Some \<lparr>p_userId = ''u1'', p_exp = Some 3000000\<rparr>
      else None)"

definition hs0 :: handshake where
  "hs0 = \<lparr>auth_token = None, authorization = Some ''Bearer tok''\<rparr>"

definition svc0 :: auth_service where
  "svc0 = initializeAuth decode0 0 (new_service False [] [])"

definition svc1 :: auth_service where
  "svc1 = auth_step decode0 1000 (AuthSuccess ''tok'' (JStr ''Ann'')) svc0"

section \<open>The Event model\<close>

lemma foldl_add_sum_list:
  "foldl (\<lambda>total t. total + f t) a ts = (a::int) + sum_list (map f ts)"
  by (induction ts arbitrary: a) auto

text \<open>
  C8. The virtual getter \<open>availableTickets\<close> is the sum, over all tickets of
  \<open>pricing.tickets\<close>, of quantity minus sold, and it is 0 when the array is absent.
\<close>

theorem availableTickets_is_sum:
  "availableTickets e =
     (case tickets e of None \<Rightarrow> 0 | Some ts \<Rightarrow> (\<Sum>t\<leftarrow>ts. quantity t - sold t))"
  by (simp add: availableTickets_def foldl_add_sum_list split: option.split)

theorem availableTickets_is_sum_witness:
  "availableTickets ev0 = 7 \<and> availableTickets (ev0\<lparr>tickets := None\<rparr>) = 0"
  using availableTickets_is_sum [of ev0] availableTickets_is_sum [of "ev0\<lparr>tickets := None\<rparr>"]
  by (simp add: ev0_def)

text \<open>
  C9. \<open>getAvailableSpots\<close> returns \<open>Infinity\<close> when \<open>registration.maxAttendees\<close> is unset
  or 0, and otherwise \<open>maxAttendees\<close> minus \<open>currentAttendees\<close>, which is negative when
  more attendees are counted than the maximum; \<open>request_event_stats\<close> hands this value
  to \<open>emit\<close> as \<open>availableSpots\<close> of the \<open>event_stats\<close> payload.
\<close>

theorem getAvailableSpots_cases:
  "(maxAttendees e = None \<or> maxAttendees e = Some 0 \<longrightarrow> getAvailableSpots e = Infinity) \<and>
   (\<forall>m. maxAttendees e = Some m \<and> m \<noteq> 0 \<longrightarrow>
        getAvailableSpots e = Finite (m - currentAttendees e) \<and>
        (m < currentAttendees e \<longrightarrow> (\<exists>n<0. getAvailableSpots e = Finite n))) \<and>
   (findById (db srv) eid = Inr (Some e) \<longrightarrow>
      (\<exists>payload.
         effects (request_event_stats now sock eid srv) =
           effects srv @
             [DbFindById eid, Emit (ToSocket (sock_id sock)) ''event_stats'' (JObj payload)] \<and>
         map_of payload ''availableSpots'' = Some (spots_value (getAvailableSpots e))))"
proof (intro conjI impI allI)
  assume "maxAttendees e = None \<or> maxAttendees e = Some 0"
  then show "getAvailableSpots e = Infinity"
    by (auto simp: getAvailableSpots_def)
next
  fix m assume m: "maxAttendees e = Some m \<and> m \<noteq> 0"
  then show v: "getAvailableSpots e = Finite (m - currentAttendees e)"
    by (simp add: getAvailableSpots_def)
  assume "m < currentAttendees e"
  then have "m - currentAttendees e < 0" by simp
  with v show "\<exists>n<0. getAvailableSpots e = Finite n" by blast
next
  assume f: "findById (db srv) eid = Inr (Some e)"
  let ?payload =
    "[(''eventId'', JStr eid),
      (''totalAttendees'', JNum (int (length (attendees e)))),
      (''checkedInCount'', JNum (checked_in_count (attendees e))),
      (''availableSpots'', spots_value (getAvailableSpots e)),
      (''onlineViewers'',
         JNum (case map_of (eventRooms srv) eid of None \<Rightarrow> 0 | Some S \<Rightarrow> int (card S))),
      (''timestamp'', JDate now)]"
  have "effects (request_event_stats now sock eid srv) =
          effects srv @
            [DbFindById eid, Emit (ToSocket (sock_id sock)) ''event_stats'' (JObj ?payload)]"
    using f by (simp add: request_event_stats_def perform_def emit_def Let_def)
  moreover have "map_of ?payload ''availableSpots'' = Some (spots_value (getAvailableSpots e))"
    by simp
  ultimately show "\<exists>payload.
         effects (request_event_stats now sock eid srv) =
           effects srv @
             [DbFindById eid, Emit (ToSocket (sock_id sock)) ''event_stats'' (JObj payload)] \<and>
         map_of payload ''availableSpots'' = Some (spots_value (getAvailableSpots e))"
    by blast
qed

theorem getAvailableSpots_cases_witness:
  "getAvailableSpots (ev0\<lparr>maxAttendees := None\<rparr>) = Infinity \<and>
   getAvailableSpots (ev0\<lparr>maxAttendees := Some 0\<rparr>) = Infinity \<and>
   getAvailableSpots ev0 = Finite (- 2) \<and>
   findById (db srv0) oid_e1 = Inr (Some ev0) \<and>
   (\<exists>payload.
      effects (request_event_stats 42 sock0 oid_e1 srv0) =
        [DbFindById oid_e1, Emit (ToSocket ''s1'') ''event_stats'' (JObj payload)] \<and>
      map_of payload ''availableSpots'' = Some (JNum (- 2)))"
proof -
  have f: "findById (db srv0) oid_e1 = Inr (Some ev0)"
    by (simp add: findById_def isObjectId_def is_hex_digit_def srv0_def ev0_def oid_e1_def)
  have m: "maxAttendees ev0 = Some 5" "currentAttendees ev0 = 7"
    by (simp_all add: ev0_def)
  have a: "getAvailableSpots (ev0\<lparr>maxAttendees := None\<rparr>) = Infinity"
    using getAvailableSpots_cases [of "ev0\<lparr>maxAttendees := None\<rparr>"] by simp
  have b: "getAvailableSpots (ev0\<lparr>maxAttendees := Some 0\<rparr>) = Infinity"
    using getAvailableSpots_cases [of "ev0\<lparr>maxAttendees := Some 0\<rparr>"] by simp
  have c: "getAvailableSpots ev0 = Finite (- 2)"
    using getAvailableSpots_cases [of ev0] m by simp
  have d: "\<exists>payload.
      effects (request_event_stats 42 sock0 oid_e1 srv0) =
        [DbFindById oid_e1, Emit (ToSocket ''s1'') ''event_stats'' (JObj payload)] \<and>
      map_of payload ''availableSpots'' = Some (JNum (- 2))"
    using getAvailableSpots_cases [of ev0 srv0 oid_e1 42 sock0] f c
    by (simp add: spots_value_def srv0_def sock0_def)
  from a b c d f show ?thesis by blast
qed

lemma sorted_limit_q: "sorted (map f xs) \<Longrightarrow> sorted (map f (limit_q n xs))"
  using sorted_wrt_take [of "(\<le>)" "map f xs" n] by (simp add: limit_q_def take_map)

lemma set_limit_q: "set (limit_q n xs) \<subseteq> set xs"
  by (auto simp: limit_q_def dest: in_set_takeD)

text \<open>
  C7, as stated, fails: \<open>findUpcoming(0)\<close> passes 0 to \<open>limit\<close>, which sets no limit, so
  one upcoming public published event is returned although the limit is 0.
\<close>

theorem findUpcoming_limit_zero_counterexample:
  "\<not> length (findUpcoming 100 [ev0] (Some 0)) \<le> 0"
  by (simp add: findUpcoming_def limit_q_def upcoming_filter_def ev0_def)

text \<open>
  C7, amended. \<open>findUpcoming(limit)\<close> returns only events of the collection whose
  \<open>startDate\<close> is at or after the current time, whose status is published and whose
  visibility is public, in ascending order of \<open>startDate\<close>; it returns at most \<open>limit\<close>
  events when \<open>limit\<close> is positive, at most 10 when \<open>limit\<close> is omitted, and every
  matching event when \<open>limit\<close> is 0.
\<close>

theorem findUpcoming_filtered_sorted_limited:
  "(\<forall>e \<in> set (findUpcoming now coll limit).
       e \<in> set coll \<and> now \<le> startDate e \<and> status e = Published \<and> visibility e = Public) \<and>
   sorted (map startDate (findUpcoming now coll limit)) \<and>
   (\<forall>n. limit = Some n \<and> 0 < n \<longrightarrow> length (findUpcoming now coll limit) \<le> n) \<and>
   findUpcoming now coll None = findUpcoming now coll (Some 10) \<and>
   length (findUpcoming now coll None) \<le> 10 \<and>
   findUpcoming now coll (Some 0) = sort_key startDate (filter (upcoming_filter now) coll)"
proof -
  let ?m = "sort_key startDate (filter (upcoming_filter now) coll)"
  have sub: "set (findUpcoming now coll limit) \<subseteq> set ?m"
    unfolding findUpcoming_def by (rule set_limit_q)
  have 1: "\<forall>e \<in> set (findUpcoming now coll limit).
       e \<in> set coll \<and> now \<le> startDate e \<and> status e = Published \<and> visibility e = Public"
    using sub by (auto simp: upcoming_filter_def)
  have 2: "sorted (map startDate (findUpcoming now coll limit))"
    unfolding findUpcoming_def by (rule sorted_limit_q) (rule sorted_sort_key)
  have 3: "\<forall>n. limit = Some n \<and> 0 < n \<longrightarrow> length (findUpcoming now coll limit) \<le> n"
    by (simp add: findUpcoming_def limit_q_def)
  have 4: "findUpcoming now coll None = findUpcoming now coll (Some 10)"
    by (simp add: findUpcoming_def)
  have 5: "length (findUpcoming now coll None) \<le> 10"
    by (simp add: findUpcoming_def limit_q_def)
  have 6: "findUpcoming now coll (Some 0) = ?m"
    by (simp add: findUpcoming_def limit_q_def)
  from 1 2 3 4 5 6 show ?thesis by blast
qed

theorem findUpcoming_filtered_sorted_limited_witness:
  "findUpcoming 100 [ev0, ev1, ev2] (Some 1) = [ev2] \<and>
   ev2 \<in> set [ev0, ev1, ev2] \<and> 100 \<le> startDate ev2 \<and> status ev2 = Published \<and>
   visibility ev2 = Public \<and> (0::nat) < 1 \<and>
   length (findUpcoming 100 [ev0, ev1, ev2] (Some 1)) \<le> 1 \<and>
   findUpcoming 100 [ev0, ev1, ev2] None = [ev2, ev0]"
proof -
  have r: "findUpcoming 100 [ev0, ev1, ev2] (Some 1) = [ev2]"
    by (simp add: findUpcoming_def limit_q_def upcoming_filter_def ev0_def ev1_def ev2_def)
  have n: "findUpcoming 100 [ev0, ev1, ev2] None = [ev2, ev0]"
    by (simp add: findUpcoming_def limit_q_def upcoming_filter_def ev0_def ev1_def ev2_def)
  from findUpcoming_filtered_sorted_limited [of 100 "[ev0, ev1, ev2]" "Some 1"] r n
  show ?thesis by simp
qed

section \<open>The socket handler\<close>

subsection \<open>Authentication of a connection\<close>

lemma handshake_token_cases:
  "(handshake_token hs = Some tok \<and> tok \<noteq> []) \<longleftrightarrow>
     (auth_token hs = Some tok \<and> tok \<noteq> []) \<or>
     ((auth_token hs = None \<or> auth_token hs = Some []) \<and>
      (\<exists>h. authorization hs = Some h \<and> replace_first ''Bearer '' [] h = tok) \<and> tok \<noteq> [])"
  by (cases "auth_token hs"; cases "authorization hs")
     (auto simp: handshake_token_def js_or_def)

lemma auth_middleware_accepts:
  "auth_middleware V U hs sid = Inr sock \<longleftrightarrow>
     (\<exists>tok p u. handshake_token hs = Some tok \<and> tok \<noteq> [] \<and> V tok = Some p \<and>
        find (\<lambda>u. u_id u = p_userId p) U = Some u \<and> u_status u = ''active'' \<and>
        sock = \<lparr>sock_id = sid, userId = u_id u, s_user = u\<rparr>)"
  by (auto simp: auth_middleware_def split: option.splits)

lemma on_connection_effects:
  "\<exists>rest. effects (on_connection now sock srv) =
      effects srv @ Join (sock_id sock) (''user_'' @ userId sock) # rest"
  by (simp add: on_connection_def Let_def broadcastUserStatus_def emit_def perform_def)

text \<open>
  C2. A connection attempt is accepted exactly when a non-empty token is supplied (in
  \<open>handshake.auth.token\<close>, or else in the \<open>Authorization\<close> header with its first
  \<open>Bearer \<close> removed), \<open>jwt.verify\<close> accepts it, and the user it names exists with status
  \<open>active\<close>. Otherwise it is rejected with one of the three authentication errors. On
  acceptance the first thing the connection handler does to the outside is
  \<open>socket.join\<close> of the room \<open>user_\<close> followed by the socket's user id.
\<close>

theorem connection_accepted_iff_authenticated:
  "((\<exists>srv'. handle_connect V U now hs sid srv = Inr srv') \<longleftrightarrow>
      (\<exists>tok p u. ((auth_token hs = Some tok \<and> tok \<noteq> []) \<or>
                   ((auth_token hs = None \<or> auth_token hs = Some []) \<and>
                    (\<exists>h. authorization hs = Some h \<and> replace_first ''Bearer '' [] h = tok) \<and>
                    tok \<noteq> [])) \<and>
                  V tok = Some p \<and> find (\<lambda>u. u_id u = p_userId p) U = Some u \<and>
                  u_status u = ''active'')) \<and>
   ((\<nexists>srv'. handle_connect V U now hs sid srv = Inr srv') \<longrightarrow>
      (\<exists>e. handle_connect V U now hs sid srv = Inl e \<and>
           auth_error_message e \<in> {''Authentication token required'',
             ''Invalid or inactive user'', ''Authentication failed''})) \<and>
   (\<forall>srv'. handle_connect V U now hs sid srv = Inr srv' \<longrightarrow>
      (\<exists>sock rest. auth_middleware V U hs sid = Inr sock \<and> sock_id sock = sid \<and>
         effects srv' = effects srv @ Join sid (''user_'' @ userId sock) # rest))"
proof -
  let ?acc = "\<exists>tok p u. handshake_token hs = Some tok \<and> tok \<noteq> [] \<and> V tok = Some p \<and>
                  find (\<lambda>u. u_id u = p_userId p) U = Some u \<and> u_status u = ''active''"
  have A: "(\<exists>srv'. handle_connect V U now hs sid srv = Inr srv') \<longleftrightarrow> ?acc"
  proof
    assume "\<exists>srv'. handle_connect V U now hs sid srv = Inr srv'"
    then obtain sock where "auth_middleware V U hs sid = Inr sock"
      by (auto simp: handle_connect_def split: sum.splits)
    then show ?acc unfolding auth_middleware_accepts by blast
  next
    assume ?acc
    then obtain sock where "auth_middleware V U hs sid = Inr sock"
      unfolding auth_middleware_accepts by blast
    then show "\<exists>srv'. handle_connect V U now hs sid srv = Inr srv'"
      by (simp add: handle_connect_def)
  qed
  have B: "(\<nexists>srv'. handle_connect V U now hs sid srv = Inr srv') \<longrightarrow>
      (\<exists>e. handle_connect V U now hs sid srv = Inl e \<and>
           auth_error_message e \<in> {''Authentication token required'',
             ''Invalid or inactive user'', ''Authentication failed''})"
  proof
    assume "\<nexists>srv'. handle_connect V U now hs sid srv = Inr srv'"
    then obtain e where e: "handle_connect V U now hs sid srv = Inl e"
      by (cases "handle_connect V U now hs sid srv") auto
    have "auth_error_message e \<in> {''Authentication token required'',
             ''Invalid or inactive user'', ''Authentication failed''}"
      by (cases e) simp_all
    with e show "\<exists>e. handle_connect V U now hs sid srv = Inl e \<and>
           auth_error_message e \<in> {''Authentication token required'',
             ''Invalid or inactive user'', ''Authentication failed''}" by blast
  qed
  have C: "\<forall>srv'. handle_connect V U now hs sid srv = Inr srv' \<longrightarrow>
      (\<exists>sock rest. auth_middleware V U hs sid = Inr sock \<and> sock_id sock = sid \<and>
         effects srv' = effects srv @ Join sid (''user_'' @ userId sock) # rest)"
  proof (intro allI impI)
    fix srv' assume h: "handle_connect V U now hs sid srv = Inr srv'"
    then obtain sock where s: "auth_middleware V U hs sid = Inr sock"
      and srv': "srv' = on_connection now sock srv"
      by (auto simp: handle_connect_def split: sum.splits)
    from s have sid: "sock_id sock = sid" unfolding auth_middleware_accepts by auto
    from on_connection_effects [of now sock srv] sid srv' s
    show "\<exists>sock rest. auth_middleware V U hs sid = Inr sock \<and> sock_id sock = sid \<and>
         effects srv' = effects srv @ Join sid (''user_'' @ userId sock) # rest"
      by auto
  qed
  from A B C show ?thesis unfolding handshake_token_cases [symmetric] by blast
qed

theorem connection_accepted_iff_authenticated_witness:
  "auth_token hs0 = None \<and> authorization hs0 = Some ''Bearer tok'' \<and>
   replace_first ''Bearer '' [] ''Bearer tok'' = ''tok'' \<and>
   decode0 ''tok'' = Some \<lparr>p_userId = ''u1'', p_exp = Some 2000\<rparr> \<and>
   find (\<lambda>u. u_id u = ''u1'') [user1, user0] = Some user0 \<and> u_status user0 = ''active'' \<and>
   handle_connect decode0 [user1, user0] 7 hs0 ''s1'' srv0 = Inr (on_connection 7 sock0 srv0) \<and>
   (\<exists>rest. effects (on_connection 7 sock0 srv0) = Join ''s1'' ''user_u1'' # rest) \<and>
   handle_connect decode0 [user1, user0] 7 (hs0\<lparr>authorization := None\<rparr>) ''s1'' srv0 =
     Inl TokenRequired"
proof -
  have h: "handle_connect decode0 [user1, user0] 7 hs0 ''s1'' srv0 =
             Inr (on_connection 7 sock0 srv0)"
    by (simp add: handle_connect_def auth_middleware_def handshake_token_def js_or_def hs0_def
          decode0_def user0_def user1_def sock0_def)
  have m: "auth_middleware decode0 [user1, user0] hs0 ''s1'' = Inr sock0"
    by (simp add: auth_middleware_def handshake_token_def js_or_def hs0_def
          decode0_def user0_def user1_def sock0_def)
  have n: "handle_connect decode0 [user1, user0] 7 (hs0\<lparr>authorization := None\<rparr>) ''s1'' srv0 =
             Inl TokenRequired"
    by (simp add: handle_connect_def auth_middleware_def handshake_token_def js_or_def hs0_def)
  have e: "effects srv0 = []" by (simp add: srv0_def)
  have u: "userId sock0 = ''u1''" by (simp add: sock0_def)
  from connection_accepted_iff_authenticated [of decode0 "[user1, user0]" 7 hs0 "''s1''" srv0]
  have "\<exists>sock rest. auth_middleware decode0 [user1, user0] hs0 ''s1'' = Inr sock \<and>
          sock_id sock = ''s1'' \<and>
          effects (on_connection 7 sock0 srv0) =
            effects srv0 @ Join ''s1'' (''user_'' @ userId sock) # rest"
    using h by blast
  with m e u have j: "\<exists>rest. effects (on_connection 7 sock0 srv0) = Join ''s1'' ''user_u1'' # rest"
    by auto
  from h n j show ?thesis
    by (simp add: hs0_def decode0_def user0_def user1_def)
qed

subsection \<open>The handlers of the named events\<close>

lemma isObjectId_examples:
  "isObjectId oid_e1" "isObjectId oid_e2" "\<not> isObjectId ''abc''"
  by code_simp+

lemma oid_distinct:
  "oid_e1 \<noteq> oid_e2" "oid_e2 \<noteq> oid_e1" "oid_e1 \<noteq> oid_e3" "oid_e2 \<noteq> oid_e3"
  by (simp_all add: oid_e1_def oid_e2_def oid_e3_def)

lemma srv0_lookups:
  "findById (db srv0) oid_e1 = Inr (Some ev0)" "findById (db srv0) oid_e2 = Inr (Some ev1)"
  "findById (db srv0) ''abc'' = Inl CastError"
  "organizer ev0 = ''u1''" "organizer ev1 = ''u1''" "visibility ev1 = Private"
  "attendees ev1 = [\<lparr>a_id = ''a1'', user = ''u2'', a_status = Registered, checkInTime = None\<rparr>]"
  "attendees ev0 = [\<lparr>a_id = ''a1'', user = ''u2'', a_status = Registered, checkInTime = None\<rparr>]"
  "effects srv0 = []" "eventRooms srv0 = []" "userSockets srv0 = []" "activeConnections srv0 = []"
  "e_id ev0 = oid_e1" "e_id ev1 = oid_e2"
  by (simp_all add: findById_def isObjectId_examples oid_distinct srv0_def ev0_def ev1_def)


lemma map_of_add_ensure:
  "map_of (add_to_set k v (ensure_set k m)) k =
     Some (insert v (case map_of m k of None \<Rightarrow> {} | Some S \<Rightarrow> S))"
  by (cases "map_of m k") (simp_all add: add_to_set_def ensure_set_def AList.update_conv')

lemma join_event_denied:
  assumes "\<not> (\<exists>ev. findById (db srv) eid = Inr (Some ev) \<and> hasAccess ev sock)"
  shows "\<exists>m. join_event now sock eid srv =
            srv\<lparr>effects := effects srv @
                   [DbFindById eid, Emit (ToSocket (sock_id sock)) ''error'' (error_message m)]\<rparr>"
proof (cases "findById (db srv) eid")
  case (Inl err)
  then show ?thesis by (auto simp: join_event_def perform_def emit_def Let_def)
next
  case (Inr event)
  with assms show ?thesis
    by (cases event) (auto simp: join_event_def perform_def emit_def Let_def)
qed

lemma join_event_granted:
  assumes "findById (db srv) eid = Inr (Some ev)" "hasAccess ev sock"
  shows "effects (join_event now sock eid srv) =
           effects srv @
             [DbFindById eid, Join (sock_id sock) (''event_'' @ eid),
              Emit (ToRoomExcept (''event_'' @ eid) (sock_id sock)) ''user_joined_event''
                (JObj [(''userId'', JStr (userId sock)),
                       (''userName'', JStr (fullName (s_user sock))),
                       (''userAvatar'', avatar (s_user sock)),
                       (''timestamp'', JDate now)]),
              Emit (ToSocket (sock_id sock)) ''joined_event''
                (JObj [(''eventId'', JStr eid),
                       (''message'', JStr ''Successfully joined event room'')])]"
    and "eventRooms (join_event now sock eid srv) =
           add_to_set eid (sock_id sock) (ensure_set eid (eventRooms srv))"
  using assms by (simp_all add: join_event_def perform_def emit_def Let_def)

text \<open>
  C5. On \<open>join_event\<close>, \<open>socket.join\<close> of the event's room is performed, and
  \<open>joined_event\<close> is emitted to the sender, exactly when the event exists and the
  requester has access: the event is public, or the requester is its organizer, or the
  requester is the user of one of its attendees. In that case the socket id is in the
  event's set of \<open>eventRooms\<close> afterwards. Otherwise the handler fetches, emits one
  \<open>error\<close> to the sender, and leaves \<open>eventRooms\<close>, \<open>userSockets\<close> and
  \<open>activeConnections\<close> as they were.
\<close>

theorem join_event_iff_access:
  "(Join (sock_id sock) (''event_'' @ eid) \<in> set (new_effects srv (join_event now sock eid srv))
      \<longleftrightarrow> (\<exists>ev. findById (db srv) eid = Inr (Some ev) \<and>
                (visibility ev = Public \<or> organizer ev = userId sock \<or>
                 (\<exists>a \<in> set (attendees ev). user a = userId sock)))) \<and>
   ((\<exists>p. Emit (ToSocket (sock_id sock)) ''joined_event'' p
            \<in> set (new_effects srv (join_event now sock eid srv)))
      \<longleftrightarrow> (\<exists>ev. findById (db srv) eid = Inr (Some ev) \<and>
                (visibility ev = Public \<or> organizer ev = userId sock \<or>
                 (\<exists>a \<in> set (attendees ev). user a = userId sock)))) \<and>
   ((\<exists>ev. findById (db srv) eid = Inr (Some ev) \<and>
          (visibility ev = Public \<or> organizer ev = userId sock \<or>
           (\<exists>a \<in> set (attendees ev). user a = userId sock)))
      \<longrightarrow> (\<exists>S. map_of (eventRooms (join_event now sock eid srv)) eid = Some S \<and>
               sock_id sock \<in> S)) \<and>
   (\<not> (\<exists>ev. findById (db srv) eid = Inr (Some ev) \<and>
          (visibility ev = Public \<or> organizer ev = userId sock \<or>
           (\<exists>a \<in> set (attendees ev). user a = userId sock)))
      \<longrightarrow> (\<exists>m. new_effects srv (join_event now sock eid srv) =
                 [DbFindById eid, Emit (ToSocket (sock_id sock)) ''error'' (error_message m)]) \<and>
          eventRooms (join_event now sock eid srv) = eventRooms srv \<and>
          userSockets (join_event now sock eid srv) = userSockets srv \<and>
          activeConnections (join_event now sock eid srv) = activeConnections srv)"
proof (cases "\<exists>ev. findById (db srv) eid = Inr (Some ev) \<and> hasAccess ev sock")
  case True
  then obtain ev where ev: "findById (db srv) eid = Inr (Some ev)" "hasAccess ev sock" by blast
  then have g: "\<exists>ev. findById (db srv) eid = Inr (Some ev) \<and>
          (visibility ev = Public \<or> organizer ev = userId sock \<or>
           (\<exists>a \<in> set (attendees ev). user a = userId sock))"
    by (auto simp: hasAccess_def list_ex_iff)
  from join_event_granted [OF ev, of now]
  have "Join (sock_id sock) (''event_'' @ eid) \<in> set (new_effects srv (join_event now sock eid srv))"
    and "\<exists>p. Emit (ToSocket (sock_id sock)) ''joined_event'' p
            \<in> set (new_effects srv (join_event now sock eid srv))"
    and "\<exists>S. map_of (eventRooms (join_event now sock eid srv)) eid = Some S \<and> sock_id sock \<in> S"
    by (simp_all add: new_effects_def map_of_add_ensure)
  with g show ?thesis by blast
next
  case False
  then have g: "\<not> (\<exists>ev. findById (db srv) eid = Inr (Some ev) \<and>
          (visibility ev = Public \<or> organizer ev = userId sock \<or>
           (\<exists>a \<in> set (attendees ev). user a = userId sock)))"
    by (auto simp: hasAccess_def list_ex_iff)
  from join_event_denied [OF False, of now] obtain m where
    m: "join_event now sock eid srv =
            srv\<lparr>effects := effects srv @
                   [DbFindById eid, Emit (ToSocket (sock_id sock)) ''error'' (error_message m)]\<rparr>"
    by blast
  have e: "new_effects srv (join_event now sock eid srv) =
             [DbFindById eid, Emit (ToSocket (sock_id sock)) ''error'' (error_message m)]"
    by (simp add: m new_effects_def)
  have "Join (sock_id sock) (''event_'' @ eid) \<notin> set (new_effects srv (join_event now sock eid srv))"
    and "\<not> (\<exists>p. Emit (ToSocket (sock_id sock)) ''joined_event'' p
            \<in> set (new_effects srv (join_event now sock eid srv)))"
    and "eventRooms (join_event now sock eid srv) = eventRooms srv"
    and "userSockets (join_event now sock eid srv) = userSockets srv"
    and "activeConnections (join_event now sock eid srv) = activeConnections srv"
    unfolding e by (simp_all add: m)
  with g e show ?thesis by blast
qed

theorem join_event_iff_access_witness:
  "findById (db srv0) oid_e2 = Inr (Some ev1) \<and> visibility ev1 \<noteq> Public \<and>
   organizer ev1 \<noteq> userId sock1 \<and> (\<exists>a \<in> set (attendees ev1). user a = userId sock1) \<and>
   Join ''s2'' (''event_'' @ oid_e2) \<in> set (new_effects srv0 (join_event 7 sock1 oid_e2 srv0)) \<and>
   (\<exists>S. map_of (eventRooms (join_event 7 sock1 oid_e2 srv0)) oid_e2 = Some S \<and> ''s2'' \<in> S) \<and>
   \<not> (\<exists>a \<in> set (attendees ev1). user a = userId sock2) \<and>
   (\<exists>m. new_effects srv0 (join_event 7 sock2 oid_e2 srv0) =
          [DbFindById oid_e2, Emit (ToSocket ''s3'') ''error'' (error_message m)]) \<and>
   eventRooms (join_event 7 sock2 oid_e2 srv0) = []"
proof -
  have g: "\<exists>ev. findById (db srv0) oid_e2 = Inr (Some ev) \<and>
            (visibility ev = Public \<or> organizer ev = userId sock1 \<or>
             (\<exists>a \<in> set (attendees ev). user a = userId sock1))"
    by (simp add: srv0_lookups sock1_def user1_def)
  have d: "\<not> (\<exists>ev. findById (db srv0) oid_e2 = Inr (Some ev) \<and>
            (visibility ev = Public \<or> organizer ev = userId sock2 \<or>
             (\<exists>a \<in> set (attendees ev). user a = userId sock2)))"
    by (simp add: srv0_lookups sock2_def)
  have s: "sock_id sock1 = ''s2''" "sock_id sock2 = ''s3''"
    by (simp_all add: sock1_def sock2_def)
  from join_event_iff_access [of sock1 oid_e2 srv0 7] g
  have 1: "Join ''s2'' (''event_'' @ oid_e2) \<in> set (new_effects srv0 (join_event 7 sock1 oid_e2 srv0))"
    and 2: "\<exists>S. map_of (eventRooms (join_event 7 sock1 oid_e2 srv0)) oid_e2 = Some S \<and> ''s2'' \<in> S"
    unfolding s by simp_all
  from join_event_iff_access [of sock2 oid_e2 srv0 7] d
  have 3: "\<exists>m. new_effects srv0 (join_event 7 sock2 oid_e2 srv0) =
          [DbFindById oid_e2, Emit (ToSocket ''s3'') ''error'' (error_message m)]"
    and 4: "eventRooms (join_event 7 sock2 oid_e2 srv0) = []"
    unfolding s by (simp_all add: srv0_lookups)
  from 1 2 3 4 show ?thesis
    by (simp add: srv0_lookups sock1_def sock2_def user1_def)
qed











text \<open>
  C1, as stated, fails: \<open>send_notification\<close> emits to the room of the target user
  without fetching any document before.
\<close>

theorem send_notification_no_fetch_counterexample:
  "list_ex mutates_or_broadcasts (run 7 sock0 (SendNotification ''u2'' []) srv0) \<and>
   \<not> fetch_comes_first (run 7 sock0 (SendNotification ''u2'' []) srv0)"
  by (simp add: run_def new_effects_def send_notification_def emit_def perform_def srv0_def)

lemma run_event_update:
  "\<exists>rest. run now sock (EventUpdate eid ut ud) srv = DbFindById eid # rest \<and>
     (list_ex mutates_or_broadcasts rest \<or>
      mutated srv (dispatch now sock (EventUpdate eid ut ud) srv)
        \<longrightarrow> (\<exists>ev. findById (db srv) eid = Inr (Some ev) \<and> organizer ev = userId sock))"
proof (cases "findById (db srv) eid")
  case (Inl err)
  then show ?thesis
    by (simp add: run_def new_effects_def event_update_def emit_def perform_def Let_def
          mutated_def)
next
  case (Inr event)
  then show ?thesis
    by (cases event)
       (simp_all add: run_def new_effects_def event_update_def emit_def perform_def Let_def
          mutated_def)
qed

lemma run_attendee_checkin:
  "\<exists>rest. run now sock (AttendeeCheckin eid aid) srv = DbFindById eid # rest \<and>
     (list_ex mutates_or_broadcasts rest \<or>
      mutated srv (dispatch now sock (AttendeeCheckin eid aid) srv)
        \<longrightarrow> (\<exists>ev. findById (db srv) eid = Inr (Some ev) \<and> organizer ev = userId sock))"
proof (cases "findById (db srv) eid")
  case (Inl err)
  then show ?thesis
    by (simp add: run_def new_effects_def attendee_checkin_def emit_def perform_def Let_def
          mutated_def)
next
  case (Inr event)
  then show ?thesis
    by (cases event)
       (auto simp: run_def new_effects_def attendee_checkin_def emit_def perform_def Let_def
          mutated_def split: option.split)
qed

lemma run_join_event:
  "\<exists>rest. run now sock (JoinEvent eid) srv = DbFindById eid # rest \<and>
     (list_ex mutates_or_broadcasts rest \<or>
      mutated srv (dispatch now sock (JoinEvent eid) srv)
        \<longrightarrow> (\<exists>ev. findById (db srv) eid = Inr (Some ev) \<and> hasAccess ev sock))"
proof (cases "findById (db srv) eid")
  case (Inl err)
  then show ?thesis
    by (simp add: run_def new_effects_def join_event_def emit_def perform_def Let_def
          mutated_def)
next
  case (Inr event)
  then show ?thesis
    by (cases event)
       (auto simp: run_def new_effects_def join_event_def emit_def perform_def Let_def
          mutated_def)
qed

lemma run_send_event_message:
  "\<exists>rest. run now sock (SendEventMessage eid m mt) srv = DbFindById eid # rest \<and>
     (list_ex mutates_or_broadcasts rest \<or>
      mutated srv (dispatch now sock (SendEventMessage eid m mt) srv)
        \<longrightarrow> (\<exists>ev. findById (db srv) eid = Inr (Some ev) \<and> hasChat ev))"
proof (cases "findById (db srv) eid")
  case (Inl err)
  then show ?thesis
    by (simp add: run_def new_effects_def send_event_message_def emit_def perform_def Let_def
          mutated_def)
next
  case (Inr event)
  then show ?thesis
    by (cases event)
       (simp_all add: run_def new_effects_def send_event_message_def emit_def perform_def
          Let_def mutated_def)
qed

lemma effects_leave_event:
  "effects (leave_event now sock eid srv) =
     effects srv @
       [Leave (sock_id sock) (''event_'' @ eid),
        Emit (ToRoomExcept (''event_'' @ eid) (sock_id sock)) ''user_left_event''
          (user_left_event now sock)]"
  by (cases "map_of (eventRooms srv) eid")
     (simp_all add: leave_event_def emit_def perform_def Let_def)

lemma run_no_fetch:
  "ev = SendNotification t n \<or> ev = TypingStart eid \<or> ev = TypingStop eid \<or> ev = LeaveEvent eid
     \<Longrightarrow> list_ex mutates_or_broadcasts (run now sock ev srv) \<and>
         \<not> list_ex is_fetch (run now sock ev srv)"
  by (auto simp: run_def new_effects_def send_notification_def typing_start_def typing_stop_def
        effects_leave_event emit_def perform_def)

lemma run_request_event_stats:
  "\<not> list_ex mutates_or_broadcasts (run now sock (RequestEventStats eid) srv) \<and>
   \<not> mutated srv (dispatch now sock (RequestEventStats eid) srv)"
proof (cases "findById (db srv) eid")
  case (Inl err)
  then show ?thesis
    by (simp add: run_def new_effects_def request_event_stats_def emit_def perform_def Let_def
          mutated_def)
next
  case (Inr event)
  then show ?thesis
    by (cases event)
       (simp_all add: run_def new_effects_def request_event_stats_def emit_def perform_def
          Let_def mutated_def)
qed

lemma run_mark_notification_read:
  "\<not> list_ex mutates_or_broadcasts (run now sock (MarkNotificationRead nid) srv) \<and>
   \<not> mutated srv (dispatch now sock (MarkNotificationRead nid) srv)"
  by (simp add: run_def new_effects_def mark_notification_read_def mutated_def)

lemma dispatch_db:
  "db (dispatch now sock ev srv) \<noteq> db srv \<Longrightarrow> \<exists>eid aid. ev = AttendeeCheckin eid aid"
  by (cases ev)
     (auto simp: join_event_def leave_event_def event_update_def send_event_message_def
        typing_start_def typing_stop_def send_notification_def mark_notification_read_def
        request_event_stats_def emit_def perform_def Let_def
        split: sum.splits option.splits if_splits)

text \<open>
  C1, amended. \<open>event_update\<close> and \<open>attendee_checkin\<close> fetch the event first, and mutate
  state or broadcast only when the sender is the organizer of the fetched event;
  \<open>join_event\<close> fetches first, and joins the room, records the membership or broadcasts
  only when the sender has access to the fetched event; \<open>send_event_message\<close> fetches
  first and broadcasts only when the fetched event exists and has chat enabled.
  \<open>send_notification\<close>, \<open>typing_start\<close>, \<open>typing_stop\<close> and \<open>leave_event\<close> fetch nothing
  and always mutate or broadcast. \<open>request_event_stats\<close> and \<open>mark_notification_read\<close>
  neither mutate nor broadcast. No handler but \<open>attendee_checkin\<close> changes the
  collection.
\<close>

theorem handlers_check_where_coded:
  "(ev = EventUpdate eid ut ud \<or> ev = AttendeeCheckin eid aid \<longrightarrow>
      (list_ex mutates_or_broadcasts (run now sock ev srv) \<or>
       mutated srv (dispatch now sock ev srv)
         \<longrightarrow> fetch_comes_first (run now sock ev srv) \<and>
             (\<exists>e. findById (db srv) eid = Inr (Some e) \<and> organizer e = userId sock))) \<and>
   (ev = JoinEvent eid \<longrightarrow>
      (list_ex mutates_or_broadcasts (run now sock ev srv) \<or>
       mutated srv (dispatch now sock ev srv)
         \<longrightarrow> fetch_comes_first (run now sock ev srv) \<and>
             (\<exists>e. findById (db srv) eid = Inr (Some e) \<and>
                  (visibility e = Public \<or> organizer e = userId sock \<or>
                   (\<exists>a \<in> set (attendees e). user a = userId sock))))) \<and>
   (ev = SendEventMessage eid m mt \<longrightarrow>
      (list_ex mutates_or_broadcasts (run now sock ev srv) \<or>
       mutated srv (dispatch now sock ev srv)
         \<longrightarrow> fetch_comes_first (run now sock ev srv) \<and>
             (\<exists>e. findById (db srv) eid = Inr (Some e) \<and> hasChat e))) \<and>
   (ev = SendNotification t n \<or> ev = TypingStart eid \<or> ev = TypingStop eid \<or>
    ev = LeaveEvent eid \<longrightarrow>
      list_ex mutates_or_broadcasts (run now sock ev srv) \<and>
      \<not> list_ex is_fetch (run now sock ev srv)) \<and>
   (ev = RequestEventStats eid \<or> ev = MarkNotificationRead nid \<longrightarrow>
      \<not> list_ex mutates_or_broadcasts (run now sock ev srv) \<and>
      \<not> mutated srv (dispatch now sock ev srv)) \<and>
   (db (dispatch now sock ev srv) \<noteq> db srv \<longrightarrow> (\<exists>eid aid. ev = AttendeeCheckin eid aid))"
proof -
  have gate: "fetch_comes_first (run now sock e srv) \<and> C"
    if r: "run now sock e srv = DbFindById eid # rest"
      and i: "list_ex mutates_or_broadcasts rest \<or> mutated srv (dispatch now sock e srv)
                \<longrightarrow> C"
      and h: "list_ex mutates_or_broadcasts (run now sock e srv) \<or>
              mutated srv (dispatch now sock e srv)"
    for e rest C
    using i h unfolding r by auto
  have A1: "list_ex mutates_or_broadcasts (run now sock (EventUpdate eid ut ud) srv) \<or>
            mutated srv (dispatch now sock (EventUpdate eid ut ud) srv)
         \<longrightarrow> fetch_comes_first (run now sock (EventUpdate eid ut ud) srv) \<and>
             (\<exists>e. findById (db srv) eid = Inr (Some e) \<and> organizer e = userId sock)"
    using run_event_update [of now sock eid ut ud srv] gate by blast
  have A2: "list_ex mutates_or_broadcasts (run now sock (AttendeeCheckin eid aid) srv) \<or>
            mutated srv (dispatch now sock (AttendeeCheckin eid aid) srv)
         \<longrightarrow> fetch_comes_first (run now sock (AttendeeCheckin eid aid) srv) \<and>
             (\<exists>e. findById (db srv) eid = Inr (Some e) \<and> organizer e = userId sock)"
    using run_attendee_checkin [of now sock eid aid srv] gate by blast
  have B0: "list_ex mutates_or_broadcasts (run now sock (JoinEvent eid) srv) \<or>
            mutated srv (dispatch now sock (JoinEvent eid) srv)
         \<longrightarrow> fetch_comes_first (run now sock (JoinEvent eid) srv) \<and>
             (\<exists>e. findById (db srv) eid = Inr (Some e) \<and> hasAccess e sock)"
    using run_join_event [of now sock eid srv] gate by blast
  have B: "list_ex mutates_or_broadcasts (run now sock (JoinEvent eid) srv) \<or>
            mutated srv (dispatch now sock (JoinEvent eid) srv)
         \<longrightarrow> fetch_comes_first (run now sock (JoinEvent eid) srv) \<and>
             (\<exists>e. findById (db srv) eid = Inr (Some e) \<and>
                  (visibility e = Public \<or> organizer e = userId sock \<or>
                   (\<exists>a \<in> set (attendees e). user a = userId sock)))"
    using B0 unfolding hasAccess_def list_ex_iff by blast
  have C: "list_ex mutates_or_broadcasts (run now sock (SendEventMessage eid m mt) srv) \<or>
            mutated srv (dispatch now sock (SendEventMessage eid m mt) srv)
         \<longrightarrow> fetch_comes_first (run now sock (SendEventMessage eid m mt) srv) \<and>
             (\<exists>e. findById (db srv) eid = Inr (Some e) \<and> hasChat e)"
    using run_send_event_message [of now sock eid m mt srv] gate by blast
  have D: "ev = SendNotification t n \<or> ev = TypingStart eid \<or> ev = TypingStop eid \<or>
    ev = LeaveEvent eid \<longrightarrow>
      list_ex mutates_or_broadcasts (run now sock ev srv) \<and>
      \<not> list_ex is_fetch (run now sock ev srv)"
    using run_no_fetch [of ev t n eid now sock srv] by blast
  have E: "ev = RequestEventStats eid \<or> ev = MarkNotificationRead nid \<longrightarrow>
      \<not> list_ex mutates_or_broadcasts (run now sock ev srv) \<and>
      \<not> mutated srv (dispatch now sock ev srv)"
    using run_request_event_stats [of now sock eid srv]
      run_mark_notification_read [of now sock nid srv] by blast
  have F: "db (dispatch now sock ev srv) \<noteq> db srv \<longrightarrow> (\<exists>eid aid. ev = AttendeeCheckin eid aid)"
    using dispatch_db [of now sock ev srv] by blast
  from A1 A2 B C D E F show ?thesis by blast
qed

theorem handlers_check_where_coded_witness:
  "list_ex mutates_or_broadcasts (run 7 sock0 (EventUpdate oid_e1 JNull JNull) srv0) \<and>
   fetch_comes_first (run 7 sock0 (EventUpdate oid_e1 JNull JNull) srv0) \<and>
   findById (db srv0) oid_e1 = Inr (Some ev0) \<and> organizer ev0 = userId sock0 \<and>
   mutated srv0 (dispatch 7 sock1 (JoinEvent oid_e2) srv0) \<and>
   fetch_comes_first (run 7 sock1 (JoinEvent oid_e2) srv0) \<and>
   findById (db srv0) oid_e2 = Inr (Some ev1) \<and> user (hd (attendees ev1)) = userId sock1 \<and>
   \<not> mutated srv0 (dispatch 7 sock2 (JoinEvent oid_e2) srv0) \<and>
   \<not> list_ex mutates_or_broadcasts (run 7 sock2 (JoinEvent oid_e2) srv0) \<and>
   list_ex mutates_or_broadcasts (run 7 sock1 (TypingStart oid_e2) srv0) \<and>
   \<not> list_ex is_fetch (run 7 sock1 (TypingStart oid_e2) srv0)"
proof -
  have a: "list_ex mutates_or_broadcasts (run 7 sock0 (EventUpdate oid_e1 JNull JNull) srv0)"
    by (simp add: run_def new_effects_def event_update_def emit_def perform_def Let_def
          srv0_lookups sock0_def)
  from handlers_check_where_coded
         [where ev = "EventUpdate oid_e1 JNull JNull" and eid = oid_e1 and ut = JNull
            and ud = JNull and now = 7 and sock = sock0 and srv = srv0] a
  have 1: "fetch_comes_first (run 7 sock0 (EventUpdate oid_e1 JNull JNull) srv0)"
    by simp
  have b: "mutated srv0 (dispatch 7 sock1 (JoinEvent oid_e2) srv0)"
    by (simp add: mutated_def join_event_def emit_def perform_def Let_def hasAccess_def
          ensure_set_def add_to_set_def srv0_lookups sock1_def user1_def)
  from handlers_check_where_coded
         [where ev = "JoinEvent oid_e2" and eid = oid_e2 and now = 7 and sock = sock1
            and srv = srv0] b
  have 2: "fetch_comes_first (run 7 sock1 (JoinEvent oid_e2) srv0)"
    by simp
  have d: "\<not> (\<exists>e. findById (db srv0) oid_e2 = Inr (Some e) \<and>
                  (visibility e = Public \<or> organizer e = userId sock2 \<or>
                   (\<exists>a \<in> set (attendees e). user a = userId sock2)))"
    by (simp add: srv0_lookups sock2_def)
  from handlers_check_where_coded
         [where ev = "JoinEvent oid_e2" and eid = oid_e2 and now = 7 and sock = sock2
            and srv = srv0] d
  have 3: "\<not> mutated srv0 (dispatch 7 sock2 (JoinEvent oid_e2) srv0) \<and>
           \<not> list_ex mutates_or_broadcasts (run 7 sock2 (JoinEvent oid_e2) srv0)"
    by blast
  from handlers_check_where_coded
         [where ev = "TypingStart oid_e2" and eid = oid_e2 and now = 7 and sock = sock1
            and srv = srv0]
  have 4: "list_ex mutates_or_broadcasts (run 7 sock1 (TypingStart oid_e2) srv0) \<and>
           \<not> list_ex is_fetch (run 7 sock1 (TypingStart oid_e2) srv0)"
    by simp
  from a 1 b 2 3 4 show ?thesis by (simp add: srv0_lookups sock0_def sock1_def user1_def)
qed

subsection \<open>The connection registry\<close>

lemma registry_inv_same:
  "registry_inv srv \<Longrightarrow> userSockets srv' = userSockets srv \<Longrightarrow>
   activeConnections srv' = activeConnections srv \<Longrightarrow> registry_inv srv'"
  by (simp add: registry_inv_def del: map_of_eq_Some_iff)

lemma registry_inv_nonempty:
  "registry_inv srv \<Longrightarrow> map_of (userSockets srv) u = Some S \<Longrightarrow> S \<noteq> {}"
  unfolding registry_inv_def by blast

lemma registry_inv_owner:
  "registry_inv srv \<Longrightarrow> map_of (userSockets srv) u = Some S \<Longrightarrow> sid \<in> S \<Longrightarrow>
     \<exists>c. map_of (activeConnections srv) sid = Some c \<and> c_userId c = u"
  unfolding registry_inv_def by blast

lemma registry_inv_registered:
  "registry_inv srv \<Longrightarrow> map_of (activeConnections srv) sid = Some c \<Longrightarrow>
     \<exists>S. map_of (userSockets srv) (c_userId c) = Some S \<and> sid \<in> S"
  unfolding registry_inv_def by blast

lemma registry_invI:
  "distinct (map fst (userSockets srv)) \<Longrightarrow>
   (\<And>u S. map_of (userSockets srv) u = Some S \<Longrightarrow>
      S \<noteq> {} \<and>
      (\<forall>sid \<in> S. \<exists>c. map_of (activeConnections srv) sid = Some c \<and> c_userId c = u)) \<Longrightarrow>
   (\<And>sid c. map_of (activeConnections srv) sid = Some c \<Longrightarrow>
      \<exists>S. map_of (userSockets srv) (c_userId c) = Some S \<and> sid \<in> S) \<Longrightarrow>
   registry_inv srv"
  unfolding registry_inv_def by blast

lemma registry_inv_distinct: "registry_inv srv \<Longrightarrow> distinct (map fst (userSockets srv))"
  unfolding registry_inv_def by blast

lemma dispatch_keeps_registry:
  "userSockets (dispatch now sock ev srv) = userSockets srv \<and>
   activeConnections (dispatch now sock ev srv) = activeConnections srv"
proof (cases ev)
  case (JoinEvent eid)
  then show ?thesis
    by (simp add: join_event_def perform_def emit_def Let_def split: sum.split option.split)
next
  case (LeaveEvent eid)
  then show ?thesis
    by (simp add: leave_event_def perform_def emit_def Let_def split: option.split)
next
  case (EventUpdate eid ut ud)
  then show ?thesis
    by (simp add: event_update_def perform_def emit_def Let_def split: sum.split option.split)
next
  case (SendEventMessage eid m mt)
  then show ?thesis
    by (simp add: send_event_message_def perform_def emit_def Let_def split: sum.split option.split)
next
  case (TypingStart eid)
  then show ?thesis by (simp add: typing_start_def perform_def emit_def)
next
  case (TypingStop eid)
  then show ?thesis by (simp add: typing_stop_def perform_def emit_def)
next
  case (SendNotification t n)
  then show ?thesis by (simp add: send_notification_def perform_def emit_def)
next
  case (MarkNotificationRead n)
  then show ?thesis by (simp add: mark_notification_read_def)
next
  case (RequestEventStats eid)
  then show ?thesis
    by (simp add: request_event_stats_def perform_def emit_def Let_def split: sum.split option.split)
next
  case (AttendeeCheckin eid aid)
  then show ?thesis
    by (simp add: attendee_checkin_def perform_def emit_def Let_def split: sum.split option.split)
qed

lemma on_connection_maps:
  "userSockets (on_connection now sock srv) =
     add_to_set (userId sock) (sock_id sock) (ensure_set (userId sock) (userSockets srv))"
  "activeConnections (on_connection now sock srv) =
     AList.update (sock_id sock)
       \<lparr>c_userId = userId sock, c_user = s_user sock, connectedAt = now\<rparr>
       (activeConnections srv)"
  by (simp_all add: on_connection_def Let_def broadcastUserStatus_def emit_def perform_def)

lemma map_of_add_ensure_other:
  "k' \<noteq> k \<Longrightarrow> map_of (add_to_set k v (ensure_set k m)) k' = map_of m k'"
  by (cases "map_of m k") (simp_all add: add_to_set_def ensure_set_def AList.update_conv')

lemma distinct_add_ensure:
  "distinct (map fst m) \<Longrightarrow> distinct (map fst (add_to_set k v (ensure_set k m)))"
  by (cases "map_of m k")
     (simp_all add: add_to_set_def ensure_set_def AList.update_conv' AList.distinct_update)

lemma registry_inv_on_connection:
  assumes inv: "registry_inv srv" and fresh: "map_of (activeConnections srv) (sock_id sock) = None"
  shows "registry_inv (on_connection now sock srv)"
proof -
  let ?us = "userSockets srv" and ?ac = "activeConnections srv"
  let ?us' = "userSockets (on_connection now sock srv)"
  let ?ac' = "activeConnections (on_connection now sock srv)"
  have ac': "map_of ?ac' =
      (map_of ?ac)(sock_id sock \<mapsto> \<lparr>c_userId = userId sock, c_user = s_user sock, connectedAt = now\<rparr>)"
    by (simp add: on_connection_maps AList.update_conv')
  have us_same: "map_of ?us' (userId sock) =
      Some (insert (sock_id sock) (case map_of ?us (userId sock) of None \<Rightarrow> {} | Some S \<Rightarrow> S))"
    by (simp add: on_connection_maps map_of_add_ensure)
  have us_other: "u \<noteq> userId sock \<Longrightarrow> map_of ?us' u = map_of ?us u" for u
    by (simp add: on_connection_maps map_of_add_ensure_other)
  have d: "distinct (map fst ?us')"
    using registry_inv_distinct [OF inv] by (simp add: on_connection_maps distinct_add_ensure)
  have a: "S \<noteq> {} \<and> (\<forall>sid \<in> S. \<exists>c. map_of ?ac' sid = Some c \<and> c_userId c = u)"
    if h: "map_of ?us' u = Some S" for u S
  proof (cases "u = userId sock")
    case True
    with h us_same
    have S: "S = insert (sock_id sock) (case map_of ?us u of None \<Rightarrow> {} | Some S \<Rightarrow> S)"
      by simp
    have "\<exists>c. map_of ?ac' sid = Some c \<and> c_userId c = u" if "sid \<in> S" for sid
    proof (cases "sid = sock_id sock")
      case True
      then show ?thesis using \<open>u = userId sock\<close> by (simp add: ac')
    next
      case False
      with that S obtain S0 where "map_of ?us u = Some S0" "sid \<in> S0"
        by (cases "map_of ?us u") auto
      from registry_inv_owner [OF inv this] obtain c
        where "map_of ?ac sid = Some c" "c_userId c = u" by blast
      with False show ?thesis by (simp add: ac')
    qed
    with S show ?thesis by blast
  next
    case False
    with h us_other have h0: "map_of ?us u = Some S" by simp
    have ne: "S \<noteq> {}" using inv h0 by (rule registry_inv_nonempty)
    have reg: "\<forall>sid \<in> S. \<exists>c. map_of ?ac sid = Some c \<and> c_userId c = u"
      using registry_inv_owner [OF inv h0] by blast
    have "\<exists>c. map_of ?ac' sid = Some c \<and> c_userId c = u" if "sid \<in> S" for sid
    proof -
      from reg that obtain c where c: "map_of ?ac sid = Some c" "c_userId c = u" by blast
      with fresh have "sid \<noteq> sock_id sock" by auto
      with c show ?thesis by (simp add: ac')
    qed
    with ne show ?thesis by blast
  qed
  have b: "\<exists>S. map_of ?us' (c_userId c) = Some S \<and> sid \<in> S"
    if h: "map_of ?ac' sid = Some c" for sid c
  proof (cases "sid = sock_id sock")
    case True
    with h have "c_userId c = userId sock" by (auto simp: ac')
    with True us_same show ?thesis by simp
  next
    case False
    with h have "map_of ?ac sid = Some c" by (simp add: ac')
    from registry_inv_registered [OF inv this]
    obtain S where S: "map_of ?us (c_userId c) = Some S" "sid \<in> S" by blast
    show ?thesis
    proof (cases "c_userId c = userId sock")
      case True
      with S us_same show ?thesis by simp
    next
      case False
      with S us_other show ?thesis by simp
    qed
  qed
  from d a b show ?thesis by (rule registry_invI)
qed

lemma leave_all_rooms_removes:
  "\<forall>(e, S) \<in> set (fst (leave_all_rooms now sock rs)). sock_id sock \<notin> S"
proof (induction rs)
  case Nil
  show ?case by simp
next
  case (Cons r rs)
  obtain e S where r: "r = (e, S)" by (cases r)
  obtain rs' effs where l: "leave_all_rooms now sock rs = (rs', effs)"
    by (cases "leave_all_rooms now sock rs")
  with Cons show ?case by (auto simp: r)
qed

lemma leave_all_rooms_effects:
  "\<forall>x \<in> set (snd (leave_all_rooms now sock rs)).
      \<exists>r p. x = Emit (ToRoomExcept r (sock_id sock)) ''user_left_event'' p"
proof (induction rs)
  case Nil
  show ?case by simp
next
  case (Cons r rs)
  obtain e S where r: "r = (e, S)" by (cases r)
  obtain rs' effs where l: "leave_all_rooms now sock rs = (rs', effs)"
    by (cases "leave_all_rooms now sock rs")
  with Cons show ?case by (auto simp: r)
qed

lemma on_disconnect_parts:
  "map_of (activeConnections (on_disconnect now sock srv)) =
     (map_of (activeConnections srv))(sock_id sock := None)"
  "eventRooms (on_disconnect now sock srv) = fst (leave_all_rooms now sock (eventRooms srv))"
  "userSockets (on_disconnect now sock srv) =
     (case map_of (userSockets srv) (userId sock) of
        None \<Rightarrow> userSockets srv
      | Some S \<Rightarrow>
          if S - {sock_id sock} = {}
          then AList.delete (userId sock)
                 (AList.update (userId sock) (S - {sock_id sock}) (userSockets srv))
          else AList.update (userId sock) (S - {sock_id sock}) (userSockets srv))"
  "effects (on_disconnect now sock srv) =
     effects srv @
     (case map_of (userSockets srv) (userId sock) of
        None \<Rightarrow> []
      | Some S \<Rightarrow> if S - {sock_id sock} = {} then [offline_status now sock] else []) @
     snd (leave_all_rooms now sock (eventRooms srv))"
  by (simp_all add: on_disconnect_def Let_def broadcastUserStatus_def emit_def perform_def
        offline_status_def AList.delete_conv' split: option.split prod.split)

lemma on_disconnect_userSockets_map:
  "map_of (userSockets (on_disconnect now sock srv)) =
     (case map_of (userSockets srv) (userId sock) of
        None \<Rightarrow> map_of (userSockets srv)
      | Some S \<Rightarrow>
          if S - {sock_id sock} = {} then (map_of (userSockets srv))(userId sock := None)
          else (map_of (userSockets srv))(userId sock \<mapsto> S - {sock_id sock}))"
  by (simp add: on_disconnect_parts(3) AList.delete_conv' AList.update_conv'
        split: option.split)

lemma on_disconnect_distinct:
  "distinct (map fst (userSockets srv)) \<Longrightarrow>
   distinct (map fst (userSockets (on_disconnect now sock srv)))"
  by (simp add: on_disconnect_parts(3) AList.distinct_update AList.distinct_delete
        split: option.split)

lemma registry_inv_on_disconnect:
  assumes inv: "registry_inv srv" and con: "connected srv sock"
  shows "registry_inv (on_disconnect now sock srv)"
proof -
  let ?us = "userSockets srv" and ?ac = "activeConnections srv"
  let ?us' = "userSockets (on_disconnect now sock srv)"
  let ?ac' = "activeConnections (on_disconnect now sock srv)"
  let ?sid = "sock_id sock" and ?uid = "userId sock"
  from con obtain c0 where c0: "map_of ?ac ?sid = Some c0" "c_userId c0 = ?uid"
    by (auto simp: connected_def split: option.splits)
  from registry_inv_registered [OF inv c0(1)] c0(2)
  obtain S0 where S0: "map_of ?us ?uid = Some S0" "?sid \<in> S0" by auto
  have ac': "map_of ?ac' = (map_of ?ac)(?sid := None)" by (rule on_disconnect_parts(1))
  have us': "map_of ?us' =
      (if S0 - {?sid} = {} then (map_of ?us)(?uid := None)
       else (map_of ?us)(?uid \<mapsto> S0 - {?sid}))"
    by (simp add: on_disconnect_userSockets_map S0)
  have d: "distinct (map fst ?us')"
    using registry_inv_distinct [OF inv] by (rule on_disconnect_distinct)
  have owner: "u = ?uid" if "map_of ?us u = Some S" "?sid \<in> S" for u S
  proof -
    from registry_inv_owner [OF inv that] obtain c
      where "map_of ?ac ?sid = Some c" "c_userId c = u" by blast
    with c0 show ?thesis by simp
  qed
  have a: "S \<noteq> {} \<and> (\<forall>sid \<in> S. \<exists>c. map_of ?ac' sid = Some c \<and> c_userId c = u)"
    if h: "map_of ?us' u = Some S" for u S
  proof (cases "u = ?uid")
    case True
    with h us' have S: "S = S0 - {?sid}" "S0 - {?sid} \<noteq> {}"
      by (auto split: if_splits)
    have "\<exists>c. map_of ?ac' sid = Some c \<and> c_userId c = u" if "sid \<in> S" for sid
    proof -
      from that S have in0: "sid \<in> S0" and ne0: "sid \<noteq> ?sid" by auto
      from registry_inv_owner [OF inv S0(1) in0] True obtain c
        where "map_of ?ac sid = Some c" "c_userId c = u" by blast
      with ne0 have "map_of ?ac' sid = Some c \<and> c_userId c = u" by (simp add: ac')
      then show ?thesis by blast
    qed
    with S show ?thesis by blast
  next
    case False
    with h us' have h0: "map_of ?us u = Some S" by (auto split: if_splits)
    have ne: "S \<noteq> {}" using inv h0 by (rule registry_inv_nonempty)
    have reg: "\<forall>sid \<in> S. \<exists>c. map_of ?ac sid = Some c \<and> c_userId c = u"
      using registry_inv_owner [OF inv h0] by blast
    from owner [OF h0] False have "?sid \<notin> S" by blast
    with reg have "\<forall>sid \<in> S. \<exists>c. map_of ?ac' sid = Some c \<and> c_userId c = u"
      by (auto simp: ac')
    with ne show ?thesis by blast
  qed
  have b: "\<exists>S. map_of ?us' (c_userId c) = Some S \<and> sid \<in> S"
    if h: "map_of ?ac' sid = Some c" for sid c
  proof -
    from h have ne: "sid \<noteq> ?sid" and h0: "map_of ?ac sid = Some c"
      by (auto simp: ac' split: if_splits)
    from registry_inv_registered [OF inv h0]
    obtain S where S: "map_of ?us (c_userId c) = Some S" "sid \<in> S" by blast
    show ?thesis
    proof (cases "c_userId c = ?uid")
      case True
      with S S0 have "S = S0" by simp
      with S ne have "sid \<in> S0 - {?sid}" by simp
      with True us' show ?thesis by auto
    next
      case False
      with S us' show ?thesis by auto
    qed
  qed
  from d a b show ?thesis by (rule registry_invI)
qed

lemma reachable_registry_inv: "reachable srv \<Longrightarrow> registry_inv srv"
proof (induction rule: reachable.induct)
  case (start d)
  show ?case by (simp add: registry_inv_def)
next
  case (connect srv sock now)
  then show ?case by (simp add: registry_inv_on_connection)
next
  case (event srv now sock ev)
  from event.IH show ?case
    by (rule registry_inv_same) (simp_all add: dispatch_keeps_registry)
next
  case (disconnect srv sock now)
  then show ?case by (simp add: registry_inv_on_disconnect)
next
  case (rest_api srv d)
  from rest_api.IH show ?case by (rule registry_inv_same) simp_all
qed

lemma distinct_map_of_set:
  "distinct (map fst al) \<Longrightarrow> (k, v) \<in> set al \<longleftrightarrow> map_of al k = Some v"
  by (auto dest: map_of_SomeD)

text \<open>
  C10. When a connected socket disconnects, in any state the server can reach: after
  the handler its id is no key of \<open>activeConnections\<close>, it is in no set of \<open>userSockets\<close>
  and in no set of \<open>eventRooms\<close>; the user's entry of \<open>userSockets\<close> is gone exactly
  when the socket was the user's only one, and exactly then the offline
  \<open>user_status_change\<close> is broadcast; and no entry of \<open>userSockets\<close> holds an empty set,
  before or after.
\<close>

theorem disconnect_removes_socket:
  assumes "reachable srv" "connected srv sock"
  shows
    "map_of (activeConnections (on_disconnect now sock srv)) (sock_id sock) = None \<and>
     (\<forall>(u, S) \<in> set (userSockets (on_disconnect now sock srv)). sock_id sock \<notin> S \<and> S \<noteq> {}) \<and>
     (\<forall>(e, S) \<in> set (eventRooms (on_disconnect now sock srv)). sock_id sock \<notin> S) \<and>
     (map_of (userSockets (on_disconnect now sock srv)) (userId sock) = None \<longleftrightarrow>
        map_of (userSockets srv) (userId sock) = Some {sock_id sock}) \<and>
     (offline_status now sock \<in> set (new_effects srv (on_disconnect now sock srv)) \<longleftrightarrow>
        map_of (userSockets srv) (userId sock) = Some {sock_id sock}) \<and>
     (\<forall>(u, S) \<in> set (userSockets srv). S \<noteq> {})"
proof -
  let ?srv' = "on_disconnect now sock srv"
  let ?sid = "sock_id sock" and ?uid = "userId sock"
  from assms(1) have inv: "registry_inv srv" by (rule reachable_registry_inv)
  then have inv': "registry_inv ?srv'" using assms(2) by (rule registry_inv_on_disconnect)
  from assms(2) obtain c0 where c0: "map_of (activeConnections srv) ?sid = Some c0" "c_userId c0 = ?uid"
    by (auto simp: connected_def split: option.splits)
  from registry_inv_registered [OF inv c0(1)] c0(2)
  obtain S0 where S0: "map_of (userSockets srv) ?uid = Some S0" "?sid \<in> S0" by auto
  have 1: "map_of (activeConnections ?srv') ?sid = None"
    by (simp add: on_disconnect_parts(1))
  have 2: "\<forall>(u, S) \<in> set (userSockets ?srv'). ?sid \<notin> S \<and> S \<noteq> {}"
  proof (clarify, rule conjI)
    fix u S assume "(u, S) \<in> set (userSockets ?srv')"
    with registry_inv_distinct [OF inv'] have m: "map_of (userSockets ?srv') u = Some S"
      by simp
    from inv' m show "S \<noteq> {}" by (rule registry_inv_nonempty)
    show "?sid \<notin> S"
    proof
      assume "?sid \<in> S"
      from registry_inv_owner [OF inv' m this]
      obtain c where "map_of (activeConnections ?srv') ?sid = Some c" by blast
      with 1 show False by simp
    qed
  qed
  have 3: "\<forall>(e, S) \<in> set (eventRooms ?srv'). ?sid \<notin> S"
    unfolding on_disconnect_parts(2) by (rule leave_all_rooms_removes)
  have emp: "S0 - {?sid} = {} \<longleftrightarrow> S0 = {?sid}" using S0(2) by auto
  have 4: "map_of (userSockets ?srv') ?uid = None \<longleftrightarrow>
        map_of (userSockets srv) ?uid = Some {?sid}"
    using emp by (auto simp: on_disconnect_userSockets_map S0)
  have "offline_status now sock \<notin> set (snd (leave_all_rooms now sock (eventRooms srv)))"
    using leave_all_rooms_effects [of now sock "eventRooms srv"]
    by (auto simp: offline_status_def)
  then have 5: "offline_status now sock \<in> set (new_effects srv ?srv') \<longleftrightarrow>
        map_of (userSockets srv) ?uid = Some {?sid}"
    using emp by (auto simp: new_effects_def on_disconnect_parts(4) S0)
  have 6: "\<forall>(u, S) \<in> set (userSockets srv). S \<noteq> {}"
  proof clarify
    fix u assume "(u, {}) \<in> set (userSockets srv)"
    with registry_inv_distinct [OF inv] have "map_of (userSockets srv) u = Some {}"
      by simp
    with registry_inv_nonempty [OF inv] show False by blast
  qed
  from 1 2 3 4 5 6 show ?thesis by blast
qed


lemma srv1_fields:
  "map_of (activeConnections srv1) ''s1'' =
     Some \<lparr>c_userId = ''u1'', c_user = user0, connectedAt = 1\<rparr>"
  "userSockets srv1 = [(''u1'', {''s1''})]"
  "eventRooms srv1 = [(oid_e1, {''s1''})]"
  by (simp_all add: srv1_def on_connection_def join_event_def broadcastUserStatus_def emit_def
        perform_def ensure_set_def add_to_set_def Let_def hasAccess_def sock0_def srv0_def
        findById_def isObjectId_examples ev0_def)

theorem disconnect_removes_socket_witness:
  "reachable srv1 \<and> connected srv1 sock0 \<and>
   userSockets srv1 = [(''u1'', {''s1''})] \<and> eventRooms srv1 = [(oid_e1, {''s1''})] \<and>
   map_of (activeConnections (on_disconnect 3 sock0 srv1)) ''s1'' = None \<and>
   map_of (userSockets (on_disconnect 3 sock0 srv1)) ''u1'' = None \<and>
   offline_status 3 sock0 \<in> set (new_effects srv1 (on_disconnect 3 sock0 srv1)) \<and>
   eventRooms (on_disconnect 3 sock0 srv1) = [(oid_e1, {})]"
proof -
  have r0: "reachable srv0" unfolding srv0_def by (rule reachable.start)
  have "reachable (on_connection 1 sock0 srv0)"
    using r0 by (rule reachable.connect) (simp add: srv0_lookups)
  then have r: "reachable srv1" unfolding srv1_def by (rule reachable.event)
  have c: "connected srv1 sock0"
    by (simp add: connected_def srv1_fields sock0_def)
  have s: "sock_id sock0 = ''s1''" "userId sock0 = ''u1''" by (simp_all add: sock0_def)
  from disconnect_removes_socket [OF r c, of 3]
  have 1: "map_of (activeConnections (on_disconnect 3 sock0 srv1)) ''s1'' = None"
    and 2: "map_of (userSockets (on_disconnect 3 sock0 srv1)) ''u1'' = None"
    and 3: "offline_status 3 sock0 \<in> set (new_effects srv1 (on_disconnect 3 sock0 srv1))"
    unfolding s by (simp_all add: srv1_fields)
  have 4: "eventRooms (on_disconnect 3 sock0 srv1) = [(oid_e1, {})]"
    by (simp add: on_disconnect_parts(2) srv1_fields s)
  from r c 1 2 3 4 show ?thesis by (simp add: srv1_fields)
qed


section \<open>The client authentication service\<close>

lemma clearAuthState_fields:
  "currentUser (clearAuthState s) = None"
  "isAuthenticated (clearAuthState s) = False"
  "navigations (clearAuthState s) = navigations s"
  "timers (clearAuthState s) = timers s"
  "tokenRefreshTimer (clearAuthState s) = tokenRefreshTimer s"
  by (simp_all add: clearAuthState_def removeStoredToken_def)

lemma getStoredToken_clearAuthState: "getStoredToken (clearAuthState s) = None"
  by (simp add: getStoredToken_def clearAuthState_def removeStoredToken_def AList.delete_conv')

lemma getStoredToken_same_storage:
  "production a = production b \<Longrightarrow> cookies a = cookies b \<Longrightarrow>
   localStorage a = localStorage b \<Longrightarrow> getStoredToken a = getStoredToken b"
  by (simp add: getStoredToken_def)

lemma clearTokenRefreshTimer_fields:
  "cookies (clearTokenRefreshTimer s) = cookies s"
  "localStorage (clearTokenRefreshTimer s) = localStorage s"
  "production (clearTokenRefreshTimer s) = production s"
  "currentUser (clearTokenRefreshTimer s) = currentUser s"
  "isAuthenticated (clearTokenRefreshTimer s) = isAuthenticated s"
  "navigations (clearTokenRefreshTimer s) = navigations s"
  "next_handle (clearTokenRefreshTimer s) = next_handle s"
  by (simp_all add: clearTokenRefreshTimer_def split: option.split)

lemma handleLogout_post:
  "getStoredToken (handleLogout s) = None \<and> currentUser (handleLogout s) = None \<and>
   \<not> isAuthenticated (handleLogout s) \<and>
   navigations (handleLogout s) = navigations s @ [[''/login'']] \<and>
   tokenRefreshTimer (handleLogout s) = None"
proof -
  have "getStoredToken (clearTokenRefreshTimer (clearAuthState s)) =
        getStoredToken (clearAuthState s)"
    by (rule getStoredToken_same_storage) (simp_all add: clearTokenRefreshTimer_fields)
  then have "getStoredToken (clearTokenRefreshTimer (clearAuthState s)) = None"
    by (simp add: getStoredToken_clearAuthState)
  moreover have "getStoredToken (handleLogout s) =
      getStoredToken (clearTokenRefreshTimer (clearAuthState s))"
    by (rule getStoredToken_same_storage) (simp_all add: handleLogout_def Let_def)
  moreover have "tokenRefreshTimer (clearTokenRefreshTimer (clearAuthState s)) = None"
    by (simp add: clearTokenRefreshTimer_def split: option.split)
  ultimately show ?thesis
    by (simp add: handleLogout_def Let_def clearTokenRefreshTimer_fields clearAuthState_fields)
qed

text \<open>
  C3. On a server-side error response with status 401, \<open>handleError\<close> logs the user out:
  afterwards no token is stored, the current user is null, the authenticated flag is
  false, and \<open>router.navigate(['/login'])\<close> has been called; the error it rethrows says
  \<open>Authentication failed\<close>.
\<close>

theorem unauthorized_response_forces_logout:
  "getStoredToken (fst (handleError (ServerError 401 msg) s)) = None \<and>
   currentUser (fst (handleError (ServerError 401 msg) s)) = None \<and>
   \<not> isAuthenticated (fst (handleError (ServerError 401 msg) s)) \<and>
   navigations (fst (handleError (ServerError 401 msg) s)) = navigations s @ [[''/login'']] \<and>
   snd (handleError (ServerError 401 msg) s) = ''Authentication failed''"
  using handleLogout_post [of s] by (simp add: handleError_def)

lemma svc1_fields:
  "getStoredToken svc1 = Some ''tok''" "currentUser svc1 = Some (JStr ''Ann'')"
  "isAuthenticated svc1" "navigations svc1 = []" "timers svc1 = [(0, 1700000)]"
  "tokenRefreshTimer svc1 = Some 0" "next_handle svc1 = 1"
  by (simp_all add: svc1_def svc0_def initializeAuth_def new_service_def getStoredToken_def
        clearAuthState_def removeStoredToken_def TOKEN_KEY_def handleAuthSuccess_def
        storeToken_def setAuthState_def scheduleTokenRefresh_def decode0_def
        REFRESH_THRESHOLD_def clearTokenRefreshTimer_def timer_due_def TIMEOUT_MAX_def
        Let_def)

theorem unauthorized_response_forces_logout_witness:
  "getStoredToken svc1 = Some ''tok'' \<and> isAuthenticated svc1 \<and>
   getStoredToken (fst (handleError (ServerError 401 None) svc1)) = None \<and>
   currentUser (fst (handleError (ServerError 401 None) svc1)) = None \<and>
   \<not> isAuthenticated (fst (handleError (ServerError 401 None) svc1)) \<and>
   navigations (fst (handleError (ServerError 401 None) svc1)) = [[''/login'']]"
  using unauthorized_response_forces_logout [of None svc1] by (simp add: svc1_fields)























end
